theory Spec2Isabelle
  imports Main
begin

section \<open>JWT claims carried by a request\<close>

text \<open>
  \<^verbatim>\<open>jwt.JwtPayload\<close> as the token endpoint fills it and as the middleware attaches it to
  \<^verbatim>\<open>req.user\<close>. Every field is optional in the TypeScript type.
\<close>

record JwtPayload =
  iss :: "string option"
  sub :: "string option"
  aud :: "string option"
  exp :: "int option"
  nbf :: "int option"
  iat :: "int option"
  role :: "string option"
  scope :: "string option"

section \<open>Key manager (utils/jwt-keys.ts)\<close>

text \<open>
  A \<^verbatim>\<open>crypto.KeyObject\<close> is kept symbolic: the number names the RSA modulus, which the
  two halves of one generated pair share.
\<close>

datatype KeyObject = PrivateKey nat | PublicKey nat

record KeyPair =
  privateKey :: KeyObject
  publicKey :: KeyObject
  kid :: string

text \<open>
  The module variable \<^verbatim>\<open>keyPair: KeyPair | null\<close> is passed to the functions that read it.
  \<open>Inl\<close> is the message of the \<^verbatim>\<open>Error\<close> thrown.
\<close>

definition not_initialized :: string where
  "not_initialized = ''Key pair not initialized. Call generateRSAKeyPair() first.''"

definition getPrivateKey :: "KeyPair option \<Rightarrow> string + KeyObject" where
  "getPrivateKey keyPair = (case keyPair of None \<Rightarrow> Inl not_initialized | Some kp \<Rightarrow> Inr (privateKey kp))"

definition getPublicKey :: "KeyPair option \<Rightarrow> string + KeyObject" where
  "getPublicKey keyPair = (case keyPair of None \<Rightarrow> Inl not_initialized | Some kp \<Rightarrow> Inr (publicKey kp))"

definition key_modulus :: "KeyObject \<Rightarrow> nat" where
  "key_modulus k = (case k of PrivateKey n \<Rightarrow> n | PublicKey n \<Rightarrow> n)"

text \<open>
  \<^verbatim>\<open>generateRSAKeyPair()\<close>. The modulus \<open>n\<close> is what \<^verbatim>\<open>crypto.generateKeyPairSync\<close> draws;
  \<open>sha256_hex\<close> is the hexadecimal SHA-256 digest of the public key's DER encoding, of which
  the key identifier is the first 16 characters.
\<close>

definition generateRSAKeyPair :: "(KeyObject \<Rightarrow> string) \<Rightarrow> nat \<Rightarrow> KeyPair" where
  "generateRSAKeyPair sha256_hex n =
     \<lparr>privateKey = PrivateKey n, publicKey = PublicKey n, kid = take 16 (sha256_hex (PublicKey n))\<rparr>"

text \<open>
  \<^verbatim>\<open>getPublicKeyJWK()\<close>: the key set with its one entry. \<open>n\<close> and \<open>e\<close> are kept as the numbers
  that their base64url texts encode; 65537 is the public exponent Node generates.
  \<open>key_of_jwk\<close> is the public key a reader of the document builds from an entry.
\<close>

record jwk =
  jwk_kty :: string
  jwk_use :: string
  jwk_kid :: string
  jwk_n :: nat
  jwk_e :: nat

definition getPublicKeyJWK :: "KeyPair option \<Rightarrow> string + jwk list" where
  "getPublicKeyJWK keyPair =
     (case keyPair of
        None \<Rightarrow> Inl not_initialized
      | Some kp \<Rightarrow>
          Inr [\<lparr>jwk_kty = ''RSA'', jwk_use = ''sig'', jwk_kid = kid kp,
                jwk_n = key_modulus (publicKey kp), jwk_e = 65537\<rparr>])"

definition key_of_jwk :: "jwk \<Rightarrow> KeyObject" where
  "key_of_jwk k = PublicKey (jwk_n k)"

section \<open>Token issuer (routes/oauth.ts)\<close>

subsection \<open>Configuration read from the environment\<close>

datatype Role = readonly | readwrite | admin

definition role_name :: "Role \<Rightarrow> string" where
  "role_name r = (case r of readonly \<Rightarrow> ''readonly'' | readwrite \<Rightarrow> ''readwrite'' | admin \<Rightarrow> ''admin'')"

record ClientConfig =
  clientId :: string
  clientSecret :: string
  client_role :: Role

record UserConfig =
  username :: string
  password :: string
  user_config_role :: Role

type_synonym env = "string \<rightharpoonup> string"

text \<open>\<^verbatim>\<open>process.env.X || ''\<close>\<close>

definition env_or_empty :: "env \<Rightarrow> string \<Rightarrow> string" where
  "env_or_empty e x = (case e x of None \<Rightarrow> [] | Some v \<Rightarrow> v)"

definition clients :: "env \<Rightarrow> ClientConfig list" where
  "clients e =
     filter (\<lambda>client. clientId client \<noteq> [] \<and> clientSecret client \<noteq> [])
       [\<lparr>clientId = env_or_empty e ''OAUTH_CLIENT_ID_READONLY'',
         clientSecret = env_or_empty e ''OAUTH_CLIENT_SECRET_READONLY'', client_role = readonly\<rparr>,
        \<lparr>clientId = env_or_empty e ''OAUTH_CLIENT_ID_READWRITE'',
         clientSecret = env_or_empty e ''OAUTH_CLIENT_SECRET_READWRITE'', client_role = readwrite\<rparr>,
        \<lparr>clientId = env_or_empty e ''OAUTH_CLIENT_ID_ADMIN'',
         clientSecret = env_or_empty e ''OAUTH_CLIENT_SECRET_ADMIN'', client_role = admin\<rparr>]"

definition users :: "env \<Rightarrow> UserConfig list" where
  "users e =
     filter (\<lambda>user. username user \<noteq> [] \<and> password user \<noteq> [])
       [\<lparr>username = env_or_empty e ''OAUTH_USERNAME_READONLY'',
         password = env_or_empty e ''OAUTH_PASSWORD_READONLY'', user_config_role = readonly\<rparr>,
        \<lparr>username = env_or_empty e ''OAUTH_USERNAME_READWRITE'',
         password = env_or_empty e ''OAUTH_PASSWORD_READWRITE'', user_config_role = readwrite\<rparr>,
        \<lparr>username = env_or_empty e ''OAUTH_USERNAME_ADMIN'',
         password = env_or_empty e ''OAUTH_PASSWORD_ADMIN'', user_config_role = admin\<rparr>]"

text \<open>
  \<^verbatim>\<open>parseInt(s, 10)\<close>: leading white space is skipped, a sign is read, then the longest
  run of decimal digits; \<open>None\<close> is \<^verbatim>\<open>NaN\<close>. The result is an exact integer here, a double
  in JavaScript.
\<close>

definition is_space :: "char \<Rightarrow> bool" where
  "is_space c = (c \<in> set [CHR '' '', CHR 0x09, CHR 0x0A, CHR 0x0B, CHR 0x0C, CHR 0x0D])"

definition is_digit :: "char \<Rightarrow> bool" where
  "is_digit c = (c \<in> set ''0123456789'')"

definition digit_value :: "char \<Rightarrow> nat" where
  "digit_value c = of_char c - 48"

definition digits_value :: "string \<Rightarrow> nat" where
  "digits_value ds = foldl (\<lambda>a c. 10 * a + digit_value c) 0 ds"

definition parseInt :: "string \<Rightarrow> int option" where
  "parseInt s =
     (let t = dropWhile is_space s;
          (negative, u) =
            (case t of
               c # r \<Rightarrow> if c = CHR ''-'' then (True, r) else if c = CHR ''+'' then (False, r) else (False, t)
             | [] \<Rightarrow> (False, t));
          ds = takeWhile is_digit u
      in if ds = [] then None
         else Some (if negative then - int (digits_value ds) else int (digits_value ds)))"

definition TOKEN_EXPIRES_IN :: "env \<Rightarrow> int option" where
  "TOKEN_EXPIRES_IN e =
     parseInt (case e ''OAUTH_TOKEN_EXPIRES_IN'' of
                 None \<Rightarrow> ''3600''
               | Some v \<Rightarrow> if v = [] then ''3600'' else v)"

subsection \<open>The request and the response\<close>

text \<open>
  The fields of the form body; \<open>None\<close> is a field that was not sent. A value is falsy
  in JavaScript when it is absent or the empty string.
\<close>

record token_request =
  grant_type :: "string option"
  client_id :: "string option"
  client_secret :: "string option"
  req_scope :: "string option"
  req_username :: "string option"
  req_password :: "string option"

definition falsy :: "string option \<Rightarrow> bool" where
  "falsy v = (case v of None \<Rightarrow> True | Some s \<Rightarrow> s = [])"

datatype oauth_body =
  TokenResponse (access_token: string) (token_type: string) (expires_in: int)
    (response_scope: "string option")
  | OAuthError (error: string) (error_description: string)

datatype oauth_reply = OAuthReply (oauth_status: nat) (oauth_body: oauth_body)

subsection \<open>Minting the token\<close>

text \<open>
  \<^verbatim>\<open>jwt.sign(payload, key, {algorithm})\<close> belongs to the jsonwebtoken package and is a
  parameter \<open>sign\<close> of the handlers: \<open>Inl\<close> is the message of an error it throws, \<open>Inr\<close>
  the token. \<open>now\<close> is \<^verbatim>\<open>Math.floor(Date.now() / 1000)\<close>.
\<close>

type_synonym signer = "JwtPayload \<Rightarrow> KeyObject \<Rightarrow> string \<Rightarrow> string + string"

definition token_payload :: "int \<Rightarrow> int \<Rightarrow> string \<Rightarrow> Role \<Rightarrow> string option \<Rightarrow> JwtPayload" where
  "token_payload lifetime now subject r sc =
     \<lparr>iss = Some ''example-app'', sub = Some subject, aud = Some ''example-app'',
      exp = Some (now + lifetime), nbf = None, iat = Some now, role = Some (role_name r),
      scope = (if falsy sc then None else sc)\<rparr>"

definition server_error :: "string \<Rightarrow> oauth_reply" where
  "server_error msg = OAuthReply 500 (OAuthError ''server_error'' msg)"

text \<open>
  The part of \<^verbatim>\<open>tokenHandler\<close> after the credential checks, from
  \<^verbatim>\<open>// Generate JWT access token\<close> to \<^verbatim>\<open>res.json(response)\<close>; an error thrown on the way
  is answered by the handler's \<^verbatim>\<open>catch\<close>.
\<close>

definition issue_token ::
  "signer \<Rightarrow> int \<Rightarrow> KeyPair option \<Rightarrow> int \<Rightarrow> string \<Rightarrow> Role \<Rightarrow> string option \<Rightarrow> oauth_reply" where
  "issue_token sign lifetime keyPair now subject r sc =
     (case getPrivateKey keyPair of
        Inl msg \<Rightarrow> server_error msg
      | Inr key \<Rightarrow>
          (case sign (token_payload lifetime now subject r sc) key ''RS256'' of
             Inl msg \<Rightarrow> server_error msg
           | Inr accessToken \<Rightarrow>
               OAuthReply 200
                 (TokenResponse accessToken ''Bearer'' lifetime (if falsy sc then None else sc))))"

subsection \<open>The handler of routes/oauth.ts (client credentials only)\<close>

definition tokenHandler ::
  "signer \<Rightarrow> ClientConfig list \<Rightarrow> int \<Rightarrow> KeyPair option \<Rightarrow> int \<Rightarrow> token_request \<Rightarrow> oauth_reply" where
  "tokenHandler sign cs lifetime keyPair now req =
     (if cs = [] then
        server_error ''OAuth server configuration error: No clients configured''
      else if falsy (grant_type req) then
        OAuthReply 400 (OAuthError ''invalid_request'' ''Missing required parameter: grant_type'')
      else if grant_type req \<noteq> Some ''client_credentials'' then
        OAuthReply 400 (OAuthError ''invalid_grant'' ''Unsupported grant type'')
      else if falsy (client_id req) then
        OAuthReply 400 (OAuthError ''invalid_request'' ''Missing required parameter: client_id'')
      else if falsy (client_secret req) then
        OAuthReply 400 (OAuthError ''invalid_request'' ''Missing required parameter: client_secret'')
      else
        (case find (\<lambda>c. Some (clientId c) = client_id req \<and> Some (clientSecret c) = client_secret req) cs of
           None \<Rightarrow> OAuthReply 401 (OAuthError ''invalid_client'' ''Invalid client credentials'')
         | Some client \<Rightarrow>
             issue_token sign lifetime keyPair now (the (client_id req)) (client_role client)
               (req_scope req)))"

subsection \<open>The handler with the password grant (the later routes/oauth.ts)\<close>

definition tokenHandler_grants ::
  "signer \<Rightarrow> ClientConfig list \<Rightarrow> UserConfig list \<Rightarrow> int \<Rightarrow> KeyPair option \<Rightarrow> int \<Rightarrow>
   token_request \<Rightarrow> oauth_reply" where
  "tokenHandler_grants sign cs us lifetime keyPair now req =
     (if falsy (grant_type req) then
        OAuthReply 400 (OAuthError ''invalid_request'' ''Missing required parameter: grant_type'')
      else if grant_type req = Some ''client_credentials'' then
        (if cs = [] then
           server_error ''OAuth server configuration error: No clients configured''
         else if falsy (client_id req) then
           OAuthReply 400 (OAuthError ''invalid_request'' ''Missing required parameter: client_id'')
         else if falsy (client_secret req) then
           OAuthReply 400 (OAuthError ''invalid_request'' ''Missing required parameter: client_secret'')
         else
           (case find (\<lambda>c. Some (clientId c) = client_id req \<and> Some (clientSecret c) = client_secret req) cs of
              None \<Rightarrow> OAuthReply 401 (OAuthError ''invalid_client'' ''Invalid client credentials'')
            | Some client \<Rightarrow>
                issue_token sign lifetime keyPair now (the (client_id req)) (client_role client)
                  (req_scope req)))
      else if grant_type req = Some ''password'' then
        (if us = [] then
           server_error ''OAuth server configuration error: No users configured''
         else if falsy (req_username req) then
           OAuthReply 400 (OAuthError ''invalid_request'' ''Missing required parameter: username'')
         else if falsy (req_password req) then
           OAuthReply 400 (OAuthError ''invalid_request'' ''Missing required parameter: password'')
         else
           (case find (\<lambda>u. Some (username u) = req_username req \<and> Some (password u) = req_password req) us of
              None \<Rightarrow> OAuthReply 401 (OAuthError ''invalid_grant'' ''Invalid username or password'')
            | Some user \<Rightarrow>
                issue_token sign lifetime keyPair now (the (req_username req))
                  (user_config_role user) (req_scope req)))
      else
        OAuthReply 400 (OAuthError ''invalid_grant''
          ''Unsupported grant type. Supported types: client_credentials, password''))"

section \<open>Token verifier (middleware/auth.ts)\<close>

text \<open>
  The errors \<^verbatim>\<open>jwt.verify\<close> throws, by class; \<open>OtherError\<close> is any error that is not a
  \<^verbatim>\<open>JsonWebTokenError\<close>.
\<close>

datatype jwt_error = TokenExpiredError | NotBeforeError | JsonWebTokenError | OtherError

text \<open>
  \<^verbatim>\<open>jwt.verify(token, key, {algorithms})\<close> is a parameter \<open>verify\<close> of the middleware. It
  reads the clock itself; the model passes the time in seconds as its last argument.
\<close>

type_synonym verifier = "string \<Rightarrow> KeyObject \<Rightarrow> string list \<Rightarrow> int \<Rightarrow> jwt_error + JwtPayload"

text \<open>\<^verbatim>\<open>s.split(sep)\<close> for a separator of one character.\<close>

fun split :: "char \<Rightarrow> string \<Rightarrow> string list" where
  "split sep [] = [[]]"
| "split sep (c # cs) =
     (if c = sep then [] # split sep cs
      else (case split sep cs of p # ps \<Rightarrow> (c # p) # ps | [] \<Rightarrow> [[c]]))"

text \<open>
  The middleware either answers itself (\<open>Rejected\<close>: status, error, description) or
  calls \<^verbatim>\<open>next()\<close> with the decoded claims in \<^verbatim>\<open>req.user\<close>.
\<close>

datatype auth_outcome = Rejected nat string string | Next JwtPayload

fun next_called :: "auth_outcome \<Rightarrow> bool" where
  "next_called (Next _) = True"
| "next_called (Rejected _ _ _) = False"

fun response_status :: "auth_outcome \<Rightarrow> nat option" where
  "response_status (Next _) = None"
| "response_status (Rejected s _ _) = Some s"

definition unauthorized :: "string \<Rightarrow> auth_outcome" where
  "unauthorized description = Rejected 401 ''unauthorized'' description"

definition verify_failed :: "jwt_error \<Rightarrow> auth_outcome" where
  "verify_failed e =
     (case e of
        TokenExpiredError \<Rightarrow> unauthorized ''Token has expired''
      | NotBeforeError \<Rightarrow> unauthorized ''Token not yet valid''
      | JsonWebTokenError \<Rightarrow> unauthorized ''Invalid or malformed token''
      | OtherError \<Rightarrow> Rejected 500 ''server_error'' ''Authentication error'')"

definition authenticateToken ::
  "verifier \<Rightarrow> KeyPair option \<Rightarrow> int \<Rightarrow> string option \<Rightarrow> auth_outcome" where
  "authenticateToken verify keyPair now authorization =
     (case authorization of
        None \<Rightarrow> unauthorized ''Missing Authorization header''
      | Some authHeader \<Rightarrow>
          if authHeader = [] then unauthorized ''Missing Authorization header''
          else
            (let parts = split CHR '' '' authHeader in
             if length parts \<noteq> 2 \<or> parts ! 0 \<noteq> ''Bearer'' then
               unauthorized ''Invalid Authorization header format. Expected: Bearer <token>''
             else
               (let token = parts ! 1 in
                if token = [] then unauthorized ''Missing access token''
                else
                  (case getPublicKey keyPair of
                     Inl msg \<Rightarrow> verify_failed OtherError
                   | Inr key \<Rightarrow>
                       (case verify token key [''RS256''] now of
                          Inl e \<Rightarrow> verify_failed e
                        | Inr decoded \<Rightarrow> Next decoded)))))"

section \<open>JavaScript values\<close>

text \<open>
  A value as \<^verbatim>\<open>express.json()\<close> or \<^verbatim>\<open>JSON.parse\<close> gives it. A number is held as text (the
  text \<^verbatim>\<open>String\<close> gives for it in a request body, the literal as written in a parsed
  text); no function below compares or computes with numbers. An object is the list of
  its members in the order written; reading a property takes the last member of that
  name. \<open>None\<close> of \<open>json option\<close> is \<^verbatim>\<open>undefined\<close>.
\<close>

datatype json =
  JNull | JBool bool | JNum string | JStr string | JArr "json list" | JObj "(string \<times> json) list"

definition js_get :: "(string \<times> json) list \<Rightarrow> string \<Rightarrow> json option" where
  "js_get members k = map_of (rev members) k"

section \<open>Chat orchestrator (routes/chat.ts, the tool-calling handler)\<close>

subsection \<open>Upstream data\<close>

text \<open>
  An upstream answer has the shape
  \<^verbatim>\<open>{choices?: [{message?: {content?, tool_calls?: [{id, function?: {name?, arguments?}}]}}]}\<close>;
  \<open>None\<close> is a property that is absent.
\<close>

datatype tool_function = ToolFunction (fn_name: "string option") (fn_arguments: "string option")

datatype tool_call = ToolCall (call_id: string) (call_function: "tool_function option")

datatype assistant_message =
  AssistantMessage (msg_content: "string option") (msg_tool_calls: "tool_call list option")

datatype choice = Choice (message: "assistant_message option")

datatype completion = Completion (choices: "choice list option")

text \<open>
  What \<^verbatim>\<open>fetch\<close> gives back: it throws (the message of the error), or it resolves to a
  response with a status, a body text and the outcome of \<^verbatim>\<open>response.json()\<close>
  (\<open>Inl\<close> the message of the error it throws on a body that is not JSON).
\<close>

datatype response =
  Response (resp_status: nat) (resp_text: string) (resp_json: "string + completion")

datatype fetch_result = FetchThrows string | FetchResponse response

definition ok :: "response \<Rightarrow> bool" where
  "ok r = (200 \<le> resp_status r \<and> resp_status r \<le> 299)"

subsection \<open>Tools\<close>

text \<open>
  The value \<^verbatim>\<open>executeToolCall\<close> passes to \<^verbatim>\<open>JSON.stringify\<close>. The two dates are kept as
  the millisecond timestamps given to \<^verbatim>\<open>new Date\<close>; the text of a date is not modelled,
  the \<^verbatim>\<open>RangeError\<close> of \<^verbatim>\<open>toISOString\<close> is.
\<close>

datatype tool_output =
  UserInfo (userId: "string option") (user_role: string) (issuer: "string option")
    (audience: "string option") (issuedAt: "int option") (expiresAt: "int option")
    (user_scope: "string option")
  | ToolError string string

definition or_else :: "string option \<Rightarrow> string option" where
  "or_else v = (case v of None \<Rightarrow> None | Some s \<Rightarrow> if s = [] then None else Some s)"

text \<open>
  \<^verbatim>\<open>new Date(ms).toISOString()\<close>: a time value beyond 8.64e15 milliseconds on either side
  of the epoch is no date, and \<^verbatim>\<open>toISOString\<close> throws a \<^verbatim>\<open>RangeError\<close> (\<open>Inl\<close> its message).
\<close>

definition toISOString :: "int \<Rightarrow> string + int" where
  "toISOString ms =
     (if - 8640000000000000 \<le> ms \<and> ms \<le> 8640000000000000 then Inr ms
      else Inl ''Invalid time value'')"

text \<open>\<^verbatim>\<open>t ? new Date(t * 1000).toISOString() : null\<close>\<close>

definition date_ms :: "int option \<Rightarrow> string + int option" where
  "date_ms t =
     (case t of
        None \<Rightarrow> Inr None
      | Some n \<Rightarrow>
          if n = 0 then Inr None
          else (case toISOString (n * 1000) of Inl msg \<Rightarrow> Inl msg | Inr ms \<Rightarrow> Inr (Some ms)))"

text \<open>
  \<^verbatim>\<open>executeToolCall(toolName, args, req)\<close>. No case of the switch reads \<^verbatim>\<open>args\<close>, so the
  model takes the tool name and \<^verbatim>\<open>req.user\<close> only. \<open>Inl\<close> is the message of an error thrown
  while the result is built.
\<close>

definition executeToolCall :: "string option \<Rightarrow> JwtPayload option \<Rightarrow> string + tool_output" where
  "executeToolCall toolName user =
     (if toolName = Some ''get_user'' then
        (case user of
           Some u \<Rightarrow>
             (case date_ms (iat u) of
                Inl msg \<Rightarrow> Inl msg
              | Inr issued \<Rightarrow>
                  (case date_ms (exp u) of
                     Inl msg \<Rightarrow> Inl msg
                   | Inr expires \<Rightarrow>
                       Inr (UserInfo (sub u)
                              (case or_else (role u) of None \<Rightarrow> ''unknown'' | Some r \<Rightarrow> r)
                              (iss u) (aud u) issued expires (or_else (scope u)))))
         | None \<Rightarrow>
             Inr (ToolError ''No authenticated user''
                    ''This endpoint requires authentication to retrieve user information''))
      else
        Inr (ToolError ''Unknown tool''
               (''Tool '' @ [CHR 0x27] @ (case toolName of None \<Rightarrow> ''undefined'' | Some n \<Rightarrow> n)
                @ [CHR 0x27] @ '' is not available'')))"

subsection \<open>The request sent upstream\<close>

datatype chat_turn =
  Turn (turn_role: string) (turn_content: string)
  | AssistantCalls "string option" "tool_call list"
  | ToolTurn string tool_output

record litellm_request =
  messages :: "chat_turn list"
  model :: "string option"

text \<open>
  \<^verbatim>\<open>tools: TOOLS\<close> and \<^verbatim>\<open>tool_choice: 'auto'\<close> are the same in every request and are left
  out of the record.
\<close>

subsection \<open>What the handler answers\<close>

datatype reply_body = Data completion | ErrorBody string string | Invalid string

datatype reply = Reply (reply_status: nat) (reply_content: reply_body)

text \<open>
  The effects of one run, in order: the requests sent upstream, the tool calls that were
  run to a result, and the number of rounds of tool calls that were run to their end.
\<close>

record trace =
  fetches :: "litellm_request list"
  executed :: "tool_call list"
  rounds :: nat

definition no_trace :: trace where
  "no_trace = \<lparr>fetches = [], executed = [], rounds = 0\<rparr>"

definition MAX_TOOL_ITERATIONS :: nat where
  "MAX_TOOL_ITERATIONS = 10"

text \<open>
  \<^verbatim>\<open>data.choices?.[0]?.message\<close>, then
  \<^verbatim>\<open>assistantMessage?.tool_calls && assistantMessage.tool_calls.length > 0\<close>:
  the tool calls the model asks for, if it asks for any.
\<close>

definition assistantMessage :: "completion \<Rightarrow> assistant_message option" where
  "assistantMessage data =
     (case choices data of
        None \<Rightarrow> None
      | Some [] \<Rightarrow> None
      | Some (c # _) \<Rightarrow> message c)"

definition tool_request :: "completion \<Rightarrow> (assistant_message \<times> tool_call list) option" where
  "tool_request data =
     (case assistantMessage data of
        None \<Rightarrow> None
      | Some m \<Rightarrow>
          (case msg_tool_calls m of
             None \<Rightarrow> None
           | Some [] \<Rightarrow> None
           | Some (c # cs) \<Rightarrow> Some (m, c # cs)))"

text \<open>
  The \<^verbatim>\<open>for (const toolCall of assistantMessage.tool_calls)\<close> loop: the tool turns pushed,
  one per tool call run to a result, and the message of the error that ended the loop,
  if one was thrown. Reading \<^verbatim>\<open>toolCall.function.name\<close> of a tool call without
  \<open>function\<close> throws a \<^verbatim>\<open>TypeError\<close>.
\<close>

definition no_function :: string where
  "no_function = ''Cannot read properties of undefined (reading '' @ [CHR 0x27] @ ''name'' @ [CHR 0x27] @ '')''"

fun run_tool_calls :: "JwtPayload option \<Rightarrow> tool_call list \<Rightarrow> chat_turn list \<times> string option" where
  "run_tool_calls user [] = ([], None)"
| "run_tool_calls user (toolCall # rest) =
     (case call_function toolCall of
        None \<Rightarrow> ([], Some no_function)
      | Some f \<Rightarrow>
          (case executeToolCall (fn_name f) user of
             Inl msg \<Rightarrow> ([], Some msg)
           | Inr toolResult \<Rightarrow>
               (case run_tool_calls user rest of
                  (turns, thrown) \<Rightarrow> (ToolTurn (call_id toolCall) toolResult # turns, thrown))))"

definition push_tool_round ::
  "assistant_message \<Rightarrow> tool_call list \<Rightarrow> chat_turn list \<Rightarrow> litellm_request \<Rightarrow> litellm_request" where
  "push_tool_round m calls turns request =
     request\<lparr>messages := messages request @ AssistantCalls (or_else (msg_content m)) calls # turns\<rparr>"

text \<open>
  The \<^verbatim>\<open>while (iteration < MAX_TOOL_ITERATIONS)\<close> loop of \<^verbatim>\<open>chatHandler\<close>. The upstream
  service is a function of the number of calls already made and of the request, so that
  it may answer each call differently.
\<close>

function toolLoop ::
  "(nat \<Rightarrow> litellm_request \<Rightarrow> fetch_result) \<Rightarrow> JwtPayload option \<Rightarrow> nat \<Rightarrow>
   litellm_request \<Rightarrow> trace \<Rightarrow> reply \<times> trace" where
  "toolLoop fetch user iteration request t =
     (if iteration < MAX_TOOL_ITERATIONS then
        (let t1 = t\<lparr>fetches := fetches t @ [request]\<rparr> in
         case fetch iteration request of
           FetchThrows msg \<Rightarrow> (Reply 500 (ErrorBody ''Internal server error'' msg), t1)
         | FetchResponse r \<Rightarrow>
             if \<not> ok r then
               (Reply (resp_status r) (ErrorBody ''LiteLLM server error'' (resp_text r)), t1)
             else
               (case resp_json r of
                  Inl msg \<Rightarrow> (Reply 500 (ErrorBody ''Internal server error'' msg), t1)
                | Inr data \<Rightarrow>
                    (case tool_request data of
                       Some (m, calls) \<Rightarrow>
                         (case run_tool_calls user calls of
                            (turns, Some msg) \<Rightarrow>
                              (Reply 500 (ErrorBody ''Internal server error'' msg),
                               t1\<lparr>executed := executed t1 @ take (length turns) calls\<rparr>)
                          | (turns, None) \<Rightarrow>
                              toolLoop fetch user (iteration + 1)
                                (push_tool_round m calls turns request)
                                (t1\<lparr>executed := executed t1 @ calls, rounds := rounds t1 + 1\<rparr>))
                     | None \<Rightarrow> (Reply 200 (Data data), t1))))
      else
        (Reply 500 (ErrorBody ''Tool call limit exceeded''
           ''Maximum tool call iterations (10) reached''), t))"
  by pat_completeness auto
termination
  by (relation "measure (\<lambda>(fetch, user, iteration, request, t). MAX_TOOL_ITERATIONS - iteration)")
    auto

declare toolLoop.simps [simp del]

text \<open>How the loop sees one upstream answer.\<close>

definition requests_tools :: "fetch_result \<Rightarrow> bool" where
  "requests_tools res =
     (case res of
        FetchThrows _ \<Rightarrow> False
      | FetchResponse r \<Rightarrow>
          ok r \<and> (case resp_json r of Inl _ \<Rightarrow> False | Inr data \<Rightarrow> tool_request data \<noteq> None))"

definition final_answer :: "fetch_result \<Rightarrow> completion option" where
  "final_answer res =
     (case res of
        FetchThrows _ \<Rightarrow> None
      | FetchResponse r \<Rightarrow>
          if ok r then
            (case resp_json r of
               Inl _ \<Rightarrow> None
             | Inr data \<Rightarrow> if tool_request data = None then Some data else None)
          else None)"

subsection \<open>Rounds of tool execution, as the upstream service is asked for them\<close>

text \<open>
  What running one tool call comes to: the tool turn that carries its result, or the
  message of the error thrown when it names no function or its execution throws.
\<close>

definition tool_outcome :: "JwtPayload option \<Rightarrow> tool_call \<Rightarrow> string + chat_turn" where
  "tool_outcome user c =
     (case call_function c of
        None \<Rightarrow> Inl no_function
      | Some f \<Rightarrow>
          (case executeToolCall (fn_name f) user of
             Inl msg \<Rightarrow> Inl msg
           | Inr toolResult \<Rightarrow> Inr (ToolTurn (call_id c) toolResult)))"

text \<open>
  \<open>tool_rounds fetch user i rq n sent calls rq'\<close>: from its call number \<open>i\<close> on, asked
  \<open>rq\<close>, the upstream service answers \<open>n\<close> times in a row with a 2xx response whose first
  choice asks for tool calls, each of which runs to a result. Each time the conversation
  grows by the assistant's message and one tool turn per call, and the grown request is
  what the service is asked next. \<open>sent\<close> are the \<open>n\<close> requests answered in this way,
  \<open>calls\<close> the tool calls they asked for, in order, and \<open>rq'\<close> the request that comes
  after them.
\<close>

inductive tool_rounds ::
  "(nat \<Rightarrow> litellm_request \<Rightarrow> fetch_result) \<Rightarrow> JwtPayload option \<Rightarrow> nat \<Rightarrow> litellm_request \<Rightarrow>
   nat \<Rightarrow> litellm_request list \<Rightarrow> tool_call list \<Rightarrow> litellm_request \<Rightarrow> bool"
  for fetch :: "nat \<Rightarrow> litellm_request \<Rightarrow> fetch_result" and user :: "JwtPayload option" where
  no_round: "tool_rounds fetch user i rq 0 [] [] rq"
| one_more:
    "fetch i rq = FetchResponse r \<Longrightarrow> ok r \<Longrightarrow> resp_json r = Inr data \<Longrightarrow>
     assistantMessage data = Some m \<Longrightarrow> msg_tool_calls m = Some cs \<Longrightarrow> cs \<noteq> [] \<Longrightarrow>
     map (tool_outcome user) cs = map Inr turns \<Longrightarrow>
     tool_rounds fetch user (Suc i)
       (rq\<lparr>messages := messages rq @ AssistantCalls (or_else (msg_content m)) cs # turns\<rparr>)
       n sent calls rq' \<Longrightarrow>
     tool_rounds fetch user i rq (Suc n) (rq # sent) (cs @ calls) rq'"

code_pred tool_rounds .

subsection \<open>Normalising and validating the request\<close>

text \<open>
  \<^verbatim>\<open>normalizeMessages(input)\<close>. \<^verbatim>\<open>JSON.parse\<close> is the parameter \<open>parse\<close> (\<open>None\<close> when it
  throws). The function always returns an array; the model returns its elements.
\<close>

definition user_message :: "string \<Rightarrow> json" where
  "user_message c = JObj [(''role'', JStr ''user''), (''content'', JStr c)]"

definition normalizeMessages :: "(string \<Rightarrow> json option) \<Rightarrow> json option \<Rightarrow> json list" where
  "normalizeMessages parse input =
     (case input of
        Some (JArr xs) \<Rightarrow> xs
      | Some (JStr s) \<Rightarrow>
          (case parse s of
             Some (JArr ys) \<Rightarrow> ys
           | Some (JObj members) \<Rightarrow> [JObj members]
           | _ \<Rightarrow> [user_message s])
      | Some JNull \<Rightarrow> [user_message ''null'']
      | Some (JBool b) \<Rightarrow> [user_message (if b then ''true'' else ''false'')]
      | Some (JNum n) \<Rightarrow> [user_message n]
      | Some (JObj members) \<Rightarrow> [user_message ''[object Object]'']
      | None \<Rightarrow> [user_message ''undefined''])"

text \<open>
  \<^verbatim>\<open>z.object({role: z.string(), content: z.string()})\<close>: the value must be an object whose
  \<open>role\<close> and \<open>content\<close> are strings; other properties are stripped.
\<close>

definition turn_schema :: "json \<Rightarrow> chat_turn option" where
  "turn_schema v =
     (case v of
        JObj members \<Rightarrow>
          (case (js_get members ''role'', js_get members ''content'') of
             (Some (JStr r), Some (JStr c)) \<Rightarrow> Some (Turn r c)
           | _ \<Rightarrow> None)
      | _ \<Rightarrow> None)"

text \<open>\<^verbatim>\<open>z.array(...).min(1)\<close> over the normalised messages.\<close>

definition messages_schema :: "json list \<Rightarrow> chat_turn list option" where
  "messages_schema xs =
     (if xs = [] \<or> (\<exists>x\<in>set xs. turn_schema x = None) then None
      else Some (map (\<lambda>x. the (turn_schema x)) xs))"

text \<open>\<^verbatim>\<open>chatBodySchema.safeParse(req.body)\<close>; \<open>None\<close> is a failed parse.\<close>

definition chatBodySchema :: "(string \<Rightarrow> json option) \<Rightarrow> json option \<Rightarrow> chat_turn list option" where
  "chatBodySchema parse body =
     (case body of
        Some (JObj members) \<Rightarrow> messages_schema (normalizeMessages parse (js_get members ''messages''))
      | _ \<Rightarrow> None)"

definition levelPathSchema :: "string \<Rightarrow> string option" where
  "levelPathSchema level = (if level = ''minnow'' \<or> level = ''shark'' then Some level else None)"

definition FISH_TO_LEVEL :: "string \<Rightarrow> string" where
  "FISH_TO_LEVEL fish = (if fish = ''minnow'' then ''insecure'' else ''secure'')"

record chat_query =
  query_model :: "string option"
  query_domain :: string

definition domains :: "string list" where
  "domains = [''general'', ''finance'', ''medicine'', ''vacation-rental'', ''taxes'']"

text \<open>
  \<^verbatim>\<open>chatQuerySchema\<close> of the tool-calling handler: strict (no other key), \<open>model\<close> an
  optional string, \<open>domain\<close> one of the five, \<open>general\<close> when absent.
\<close>

definition chatQuerySchema_tools :: "(string \<times> json) list \<Rightarrow> chat_query option" where
  "chatQuerySchema_tools q =
     (if \<exists>k\<in>set (map fst q). k \<noteq> ''model'' \<and> k \<noteq> ''domain'' then None
      else
        (case js_get q ''model'' of
           Some (JStr m) \<Rightarrow>
             (case js_get q ''domain'' of
                None \<Rightarrow> Some \<lparr>query_model = Some m, query_domain = ''general''\<rparr>
              | Some (JStr d) \<Rightarrow>
                  if d \<in> set domains then Some \<lparr>query_model = Some m, query_domain = d\<rparr> else None
              | Some _ \<Rightarrow> None)
         | None \<Rightarrow>
             (case js_get q ''domain'' of
                None \<Rightarrow> Some \<lparr>query_model = None, query_domain = ''general''\<rparr>
              | Some (JStr d) \<Rightarrow>
                  if d \<in> set domains then Some \<lparr>query_model = None, query_domain = d\<rparr> else None
              | Some _ \<Rightarrow> None)
         | Some _ \<Rightarrow> None))"

subsection \<open>The handler with the tool-call loop\<close>

record chat_request =
  req_level :: string
  req_query :: "(string \<times> json) list"
  req_body :: "json option"
  req_user :: "JwtPayload option"

text \<open>
  \<^verbatim>\<open>chatHandler\<close> with the tool-call loop. \<open>getSystemPrompt\<close> reads the prompt files and is
  a parameter (domain, then level). The message of a 400 answer is built from zod's
  issues and is not modelled: \<open>Invalid\<close> holds the \<open>error\<close> field only.
\<close>

definition chatHandler_tools ::
  "(string \<Rightarrow> json option) \<Rightarrow> (string \<Rightarrow> string \<Rightarrow> string) \<Rightarrow>
   (nat \<Rightarrow> litellm_request \<Rightarrow> fetch_result) \<Rightarrow> chat_request \<Rightarrow> reply \<times> trace" where
  "chatHandler_tools parse getSystemPrompt fetch req =
     (case levelPathSchema (req_level req) of
        None \<Rightarrow> (Reply 400 (Invalid ''Invalid path parameter''), no_trace)
      | Some fishLevel \<Rightarrow>
          (case chatQuerySchema_tools (req_query req) of
             None \<Rightarrow> (Reply 400 (Invalid ''Invalid query parameters''), no_trace)
           | Some q \<Rightarrow>
               (case chatBodySchema parse (req_body req) of
                  None \<Rightarrow> (Reply 400 (Invalid ''Invalid request body''), no_trace)
                | Some userMessages \<Rightarrow>
                    toolLoop fetch (req_user req) 0
                      \<lparr>messages =
                         Turn ''system'' (getSystemPrompt (query_domain q) (FISH_TO_LEVEL fishLevel))
                         # userMessages,
                       model = or_else (query_model q)\<rparr>
                      no_trace)))"

subsection \<open>The handler of routes/chat.ts (one upstream call)\<close>

text \<open>
  \<^verbatim>\<open>chatQuerySchema\<close> of routes/chat.ts refines \<open>model\<close>: an absent or empty model passes,
  any model passes when no allowed model is configured, otherwise the model must be
  allowed. \<open>allowedModels\<close> is what \<^verbatim>\<open>getAllowedModels()\<close> read from the LiteLLM
  configuration.
\<close>

definition isModelAllowed :: "string list \<Rightarrow> string \<Rightarrow> bool" where
  "isModelAllowed allowed m = (allowed = [] \<or> m \<in> set allowed)"

definition chatQuerySchema :: "string list \<Rightarrow> (string \<times> json) list \<Rightarrow> chat_query option" where
  "chatQuerySchema allowedModels q =
     (case chatQuerySchema_tools q of
        None \<Rightarrow> None
      | Some v \<Rightarrow>
          if or_else (query_model v) = None \<or> allowedModels = []
             \<or> isModelAllowed allowedModels (the (query_model v))
          then Some v else None)"

text \<open>
  \<^verbatim>\<open>chatHandler\<close> of routes/chat.ts: the same validation, then one request with the model
  \<^verbatim>\<open>model || 'gpt-5-mini'\<close>.
\<close>

definition chatHandler ::
  "(string \<Rightarrow> json option) \<Rightarrow> (string \<Rightarrow> string \<Rightarrow> string) \<Rightarrow> string list \<Rightarrow>
   (nat \<Rightarrow> litellm_request \<Rightarrow> fetch_result) \<Rightarrow> chat_request \<Rightarrow> reply \<times> trace" where
  "chatHandler parse getSystemPrompt allowedModels fetch req =
     (case levelPathSchema (req_level req) of
        None \<Rightarrow> (Reply 400 (Invalid ''Invalid path parameter''), no_trace)
      | Some fishLevel \<Rightarrow>
          (case chatQuerySchema allowedModels (req_query req) of
             None \<Rightarrow> (Reply 400 (Invalid ''Invalid query parameters''), no_trace)
           | Some q \<Rightarrow>
               (case chatBodySchema parse (req_body req) of
                  None \<Rightarrow> (Reply 400 (Invalid ''Invalid request body''), no_trace)
                | Some userMessages \<Rightarrow>
                    (let litellmRequest =
                       \<lparr>messages =
                          Turn ''system'' (getSystemPrompt (query_domain q) (FISH_TO_LEVEL fishLevel))
                          # userMessages,
                        model = (case or_else (query_model q) of
                                   None \<Rightarrow> Some ''gpt-5-mini'' | Some m \<Rightarrow> Some m)\<rparr>;
                         t = no_trace\<lparr>fetches := [litellmRequest]\<rparr>
                     in case fetch 0 litellmRequest of
                          FetchThrows msg \<Rightarrow> (Reply 500 (ErrorBody ''Internal server error'' msg), t)
                        | FetchResponse r \<Rightarrow>
                            if \<not> ok r then
                              (Reply (resp_status r) (ErrorBody ''LiteLLM server error'' (resp_text r)), t)
                            else
                              (case resp_json r of
                                 Inl msg \<Rightarrow> (Reply 500 (ErrorBody ''Internal server error'' msg), t)
                               | Inr data \<Rightarrow> (Reply 200 (Data data), t))))))"

subsection \<open>A JSON parser to run the handler on concrete bodies\<close>

text \<open>
  \<open>JSON_parse\<close> follows the JSON grammar: white space, the three literals, numbers,
  strings with their escapes, arrays and objects. A string is a list of bytes here; a
  \<^verbatim>\<open>\u\<close> escape yields the UTF-8 bytes of its code unit.
\<close>

definition is_ws :: "char \<Rightarrow> bool" where
  "is_ws c = (c \<in> set [CHR '' '', CHR 0x09, CHR 0x0A, CHR 0x0D])"

definition skip_ws :: "string \<Rightarrow> string" where
  "skip_ws = dropWhile is_ws"

definition hex_value :: "char \<Rightarrow> nat option" where
  "hex_value c =
     (if c \<in> set ''0123456789'' then Some (of_char c - 48)
      else if c \<in> set ''abcdef'' then Some (of_char c - 87)
      else if c \<in> set ''ABCDEF'' then Some (of_char c - 55)
      else None)"

definition utf8 :: "nat \<Rightarrow> string" where
  "utf8 n =
     (if n < 0x80 then [char_of n]
      else if n < 0x800 then [char_of (0xC0 + n div 64), char_of (0x80 + n mod 64)]
      else [char_of (0xE0 + n div 4096), char_of (0x80 + (n div 64) mod 64), char_of (0x80 + n mod 64)])"

definition unescape :: "char \<Rightarrow> char option" where
  "unescape e =
     (if e = CHR 0x22 then Some (CHR 0x22)
      else if e = CHR 0x5C then Some (CHR 0x5C)
      else if e = CHR ''/'' then Some (CHR ''/'')
      else if e = CHR ''b'' then Some (CHR 0x08)
      else if e = CHR ''f'' then Some (CHR 0x0C)
      else if e = CHR ''n'' then Some (CHR 0x0A)
      else if e = CHR ''r'' then Some (CHR 0x0D)
      else if e = CHR ''t'' then Some (CHR 0x09)
      else None)"

fun parse_chars :: "string \<Rightarrow> (string \<times> string) option" where
  "parse_chars [] = None"
| "parse_chars [c] = (if c = CHR 0x22 then Some ([], []) else None)"
| "parse_chars (c # e # r) =
     (if c = CHR 0x22 then Some ([], e # r)
      else if c = CHR 0x5C then
        (if e = CHR ''u'' then
           (case r of
              h1 # h2 # h3 # h4 # r' \<Rightarrow>
                (case (hex_value h1, hex_value h2, hex_value h3, hex_value h4) of
                   (Some a, Some b, Some c', Some d) \<Rightarrow>
                     map_option (apfst ((@) (utf8 (4096 * a + 256 * b + 16 * c' + d)))) (parse_chars r')
                 | _ \<Rightarrow> None)
            | _ \<Rightarrow> None)
         else
           (case unescape e of
              None \<Rightarrow> None
            | Some d \<Rightarrow> map_option (apfst ((#) d)) (parse_chars r)))
      else if (of_char c :: nat) < 0x20 then None
      else map_option (apfst ((#) c)) (parse_chars (e # r)))"


definition parse_digits :: "string \<Rightarrow> (string \<times> string) option" where
  "parse_digits s = (let ds = takeWhile is_digit s in if ds = [] then None else Some (ds, dropWhile is_digit s))"

definition parse_int_part :: "string \<Rightarrow> (string \<times> string) option" where
  "parse_int_part s =
     (case s of
        [] \<Rightarrow> None
      | c # r \<Rightarrow> if c = CHR ''0'' then Some (''0'', r) else parse_digits s)"

definition parse_fraction :: "string \<Rightarrow> (string \<times> string) option" where
  "parse_fraction s =
     (case s of
        [] \<Rightarrow> Some ([], s)
      | c # r \<Rightarrow>
          if c = CHR ''.'' then map_option (apfst ((#) c)) (parse_digits r) else Some ([], s))"

definition parse_exponent :: "string \<Rightarrow> (string \<times> string) option" where
  "parse_exponent s =
     (case s of
        [] \<Rightarrow> Some ([], s)
      | c # r \<Rightarrow>
          if c = CHR ''e'' \<or> c = CHR ''E'' then
            (case r of
               [] \<Rightarrow> None
             | d # r' \<Rightarrow>
                 if d = CHR ''+'' \<or> d = CHR ''-'' then map_option (apfst (\<lambda>ds. c # d # ds)) (parse_digits r')
                 else map_option (apfst ((#) c)) (parse_digits r))
          else Some ([], s))"

definition parse_number :: "string \<Rightarrow> (string \<times> string) option" where
  "parse_number s =
     (let (sign, s1) = (case s of [] \<Rightarrow> ([], s) | c # r \<Rightarrow> if c = CHR ''-'' then ([c], r) else ([], s)) in
      case parse_int_part s1 of
        None \<Rightarrow> None
      | Some (i, s2) \<Rightarrow>
          (case parse_fraction s2 of
             None \<Rightarrow> None
           | Some (f, s3) \<Rightarrow>
               (case parse_exponent s3 of
                  None \<Rightarrow> None
                | Some (e, s4) \<Rightarrow> Some (sign @ i @ f @ e, s4))))"

definition parse_scalar :: "string \<Rightarrow> (json \<times> string) option" where
  "parse_scalar t =
     (if take 4 t = ''true'' then Some (JBool True, drop 4 t)
      else if take 5 t = ''false'' then Some (JBool False, drop 5 t)
      else if take 4 t = ''null'' then Some (JNull, drop 4 t)
      else map_option (apfst JNum) (parse_number t))"

function parse_value :: "string \<Rightarrow> (json \<times> string) option"
  and parse_elements :: "string \<Rightarrow> (json list \<times> string) option"
  and parse_members :: "string \<Rightarrow> ((string \<times> json) list \<times> string) option" where
  "parse_value s =
     (case skip_ws s of
        [] \<Rightarrow> None
      | c # r \<Rightarrow>
          if c = CHR ''['' then
            (case skip_ws r of
               [] \<Rightarrow> None
             | d # r' \<Rightarrow>
                 if d = CHR '']'' then Some (JArr [], r')
                 else map_option (apfst JArr) (parse_elements (d # r')))
          else if c = CHR ''{'' then
            (case skip_ws r of
               [] \<Rightarrow> None
             | d # r' \<Rightarrow>
                 if d = CHR ''}'' then Some (JObj [], r')
                 else map_option (apfst JObj) (parse_members (d # r')))
          else if c = CHR 0x22 then map_option (apfst JStr) (parse_chars r)
          else parse_scalar (c # r))"
| "parse_elements s =
     (case parse_value s of
        None \<Rightarrow> None
      | Some (v, r) \<Rightarrow>
          (case skip_ws r of
             [] \<Rightarrow> None
           | c # r' \<Rightarrow>
               if c = CHR '','' then
                 (if length r' < length s then map_option (apfst ((#) v)) (parse_elements r') else None)
               else if c = CHR '']'' then Some ([v], r')
               else None))"
| "parse_members s =
     (case skip_ws s of
        [] \<Rightarrow> None
      | q # r \<Rightarrow>
          if q = CHR 0x22 then
            (case parse_chars r of
               None \<Rightarrow> None
             | Some (k, r1) \<Rightarrow>
                 (case skip_ws r1 of
                    [] \<Rightarrow> None
                  | c # r2 \<Rightarrow>
                      if c = CHR '':'' \<and> length r2 < length s then
                        (case parse_value r2 of
                           None \<Rightarrow> None
                         | Some (v, r3) \<Rightarrow>
                             (case skip_ws r3 of
                                [] \<Rightarrow> None
                              | d # r4 \<Rightarrow>
                                  if d = CHR '','' then
                                    (if length r4 < length s then
                                       map_option (apfst ((#) (k, v))) (parse_members r4)
                                     else None)
                                  else if d = CHR ''}'' then Some ([(k, v)], r4)
                                  else None))
                      else None))
          else None)"
  by pat_completeness auto
termination
proof (relation "measure (\<lambda>x. case x of
          Inl s \<Rightarrow> 2 * length s
        | Inr (Inl s) \<Rightarrow> 2 * length s + 1
        | Inr (Inr s) \<Rightarrow> 2 * length s + 1)", goal_cases)
  case 1
  show ?case by simp
next
  case (2 s c r d r')
  have "length (skip_ws r) \<le> length r" by (simp add: skip_ws_def length_dropWhile_le)
  moreover have "length (skip_ws s) \<le> length s" by (simp add: skip_ws_def length_dropWhile_le)
  ultimately show ?case using 2 by auto
next
  case (3 s c r d r')
  have "length (skip_ws r) \<le> length r" by (simp add: skip_ws_def length_dropWhile_le)
  moreover have "length (skip_ws s) \<le> length s" by (simp add: skip_ws_def length_dropWhile_le)
  ultimately show ?case using 3 by auto
qed auto

definition JSON_parse :: "string \<Rightarrow> json option" where
  "JSON_parse s =
     (case parse_value s of
        None \<Rightarrow> None
      | Some (v, r) \<Rightarrow> if skip_ws r = [] then Some v else None)"

section \<open>Signing and verifying tokens (the jsonwebtoken package)\<close>

subsection \<open>The text of a token\<close>

text \<open>
  Modelled from the spec: the jsonwebtoken package, whose \<^verbatim>\<open>jwt.sign\<close> and \<^verbatim>\<open>jwt.verify\<close> the
  issuer and the middleware call, is not among the repository's files. A token states
  the algorithm, the key pair that signed it and the claims. Its text here is not the
  compact serialisation (base64url of JSON, and an RSA signature): it is ten fields
  joined by dots, strings in hexadecimal and numbers in decimal, so that a token has no
  space in it and can be read back. The signature is ideal: the token names the modulus
  of the pair whose private key signed it.
\<close>

record jws =
  jws_alg :: string
  jws_key :: nat
  jws_claims :: JwtPayload

definition hex_char :: "nat \<Rightarrow> char" where
  "hex_char n = ''0123456789abcdef'' ! n"

definition encode_text :: "string \<Rightarrow> string" where
  "encode_text s = concat (map (\<lambda>c. [hex_char (of_char c div 16), hex_char (of_char c mod 16)]) s)"

fun decode_text :: "string \<Rightarrow> string option" where
  "decode_text [] = Some []"
| "decode_text [a] = None"
| "decode_text (a # b # r) =
     (case (hex_value a, hex_value b, decode_text r) of
        (Some h, Some l, Some s) \<Rightarrow> Some (char_of (16 * h + l) # s)
      | _ \<Rightarrow> None)"

function show_nat :: "nat \<Rightarrow> string" where
  "show_nat n = (if n < 10 then [char_of (48 + n)] else show_nat (n div 10) @ [char_of (48 + n mod 10)])"
  by pat_completeness auto
termination
  by (relation "measure id") auto

declare show_nat.simps [simp del]

definition read_nat :: "string \<Rightarrow> nat option" where
  "read_nat s = (if s \<noteq> [] \<and> (\<forall>c\<in>set s. is_digit c) then Some (digits_value s) else None)"

definition encode_opt_text :: "string option \<Rightarrow> string" where
  "encode_opt_text v = (case v of None \<Rightarrow> ''n'' | Some s \<Rightarrow> CHR ''t'' # encode_text s)"

definition decode_opt_text :: "string \<Rightarrow> string option option" where
  "decode_opt_text s =
     (case s of
        [] \<Rightarrow> None
      | c # r \<Rightarrow>
          if c = CHR ''n'' \<and> r = [] then Some None
          else if c = CHR ''t'' then map_option Some (decode_text r)
          else None)"

definition encode_opt_int :: "int option \<Rightarrow> string" where
  "encode_opt_int v =
     (case v of
        None \<Rightarrow> ''n''
      | Some i \<Rightarrow> if i < 0 then CHR ''m'' # show_nat (nat (- i)) else CHR ''p'' # show_nat (nat i))"

definition decode_opt_int :: "string \<Rightarrow> int option option" where
  "decode_opt_int s =
     (case s of
        [] \<Rightarrow> None
      | c # r \<Rightarrow>
          if c = CHR ''n'' \<and> r = [] then Some None
          else if c = CHR ''p'' then map_option (\<lambda>n. Some (int n)) (read_nat r)
          else if c = CHR ''m'' then map_option (\<lambda>n. Some (- int n)) (read_nat r)
          else None)"

fun join_dots :: "string list \<Rightarrow> string" where
  "join_dots [] = []"
| "join_dots [s] = s"
| "join_dots (s # t # ts) = s @ CHR ''.'' # join_dots (t # ts)"

definition segments :: "jws \<Rightarrow> string list" where
  "segments j =
       [encode_text (jws_alg j), show_nat (jws_key j),
        encode_opt_text (iss (jws_claims j)), encode_opt_text (sub (jws_claims j)),
        encode_opt_text (aud (jws_claims j)), encode_opt_int (exp (jws_claims j)),
        encode_opt_int (nbf (jws_claims j)), encode_opt_int (iat (jws_claims j)),
        encode_opt_text (role (jws_claims j)), encode_opt_text (scope (jws_claims j))]"

definition token_text :: "jws \<Rightarrow> string" where
  "token_text j = join_dots (segments j)"

definition decode_token :: "string \<Rightarrow> jws option" where
  "decode_token token =
     (case split CHR ''.'' token of
        [a, k, i, s, d, e, n, t, r, c] \<Rightarrow>
          (case (decode_text a, read_nat k, decode_opt_text i, decode_opt_text s, decode_opt_text d) of
             (Some a', Some k', Some i', Some s', Some d') \<Rightarrow>
               (case (decode_opt_int e, decode_opt_int n, decode_opt_int t, decode_opt_text r,
                      decode_opt_text c) of
                  (Some e', Some n', Some t', Some r', Some c') \<Rightarrow>
                    Some \<lparr>jws_alg = a', jws_key = k',
                          jws_claims = \<lparr>iss = i', sub = s', aud = d', exp = e', nbf = n', iat = t',
                                         role = r', scope = c'\<rparr>\<rparr>
                | _ \<Rightarrow> None)
           | _ \<Rightarrow> None)
      | _ \<Rightarrow> None)"

subsection \<open>Signing and verifying\<close>

text \<open>
  Modelled from the spec: \<^verbatim>\<open>jwt.sign(payload, privateKey, {algorithm: 'RS256'})\<close> (section 4.2,
  step 6: algorithm RS256, signed with the private key from the Key Manager).
\<close>

definition jwt_sign :: signer where
  "jwt_sign payload key algorithm =
     (case key of
        PrivateKey n \<Rightarrow>
          if algorithm = ''RS256'' then
            Inr (token_text \<lparr>jws_alg = algorithm, jws_key = n, jws_claims = payload\<rparr>)
          else Inl ''algorithm not supported''
      | PublicKey n \<Rightarrow> Inl ''secretOrPrivateKey must be an asymmetric private key'')"

text \<open>
  Modelled from the spec: \<^verbatim>\<open>jwt.verify(token, publicKey, {algorithms: ['RS256']})\<close>
  (section 4.3). A token whose structure, algorithm or signature is invalid is refused as
  invalid or malformed; a valid one that is not yet within its validity window (a
  not-before claim in the future) as not yet valid; one whose expires-at has been reached
  as expired; any other token yields its claims. No option names an issuer or an
  audience, and none is compared.
\<close>

definition jwt_verify :: verifier where
  "jwt_verify token key algorithms now =
     (case decode_token token of
        None \<Rightarrow> Inl JsonWebTokenError
      | Some j \<Rightarrow>
          if jws_alg j \<notin> set algorithms then Inl JsonWebTokenError
          else if jws_key j \<noteq> key_modulus key then Inl JsonWebTokenError
          else if (case nbf (jws_claims j) of None \<Rightarrow> False | Some t \<Rightarrow> now < t) then Inl NotBeforeError
          else if (case exp (jws_claims j) of None \<Rightarrow> False | Some t \<Rightarrow> t \<le> now) then Inl TokenExpiredError
          else Inr (jws_claims j))"

subsection \<open>Requests, configurations and stubs used to run the handlers\<close>

definition demo_digest :: "KeyObject \<Rightarrow> string" where
  "demo_digest k = ''9f86d081884c7d659a2feaa0c55ad015a3bf4f1b2b0b822cd15d6c15b0f00a08''"

definition foreign_claims :: JwtPayload where
  "foreign_claims =
     \<lparr>iss = Some ''someone-else'', sub = None, aud = Some ''another-app'', exp = Some 2000,
      nbf = None, iat = None, role = Some ''superuser'', scope = None\<rparr>"

text \<open>
  A turn as JSON and as the handler keeps it, a body holding only \<open>messages\<close>, and a
  request to \<^verbatim>\<open>POST /minnow/chat\<close> without a query.
\<close>

definition turn_json :: "string \<times> string \<Rightarrow> json" where
  "turn_json t = JObj [(''role'', JStr (fst t)), (''content'', JStr (snd t))]"

definition turn_of :: "string \<times> string \<Rightarrow> chat_turn" where
  "turn_of t = Turn (fst t) (snd t)"

definition body_with :: "json \<Rightarrow> json option" where
  "body_with m = Some (JObj [(''messages'', m)])"

definition chat_post :: "json option \<Rightarrow> chat_request" where
  "chat_post b = \<lparr>req_level = ''minnow'', req_query = [], req_body = b, req_user = None\<rparr>"

text \<open>Upstream stubs used to run the loop on concrete inputs.\<close>

definition get_user_call :: tool_call where
  "get_user_call = ToolCall ''call_1'' (Some (ToolFunction (Some ''get_user'') (Some ''{}'')))"

definition asks_get_user :: completion where
  "asks_get_user = Completion (Some [Choice (Some (AssistantMessage None (Some [get_user_call])))])"

definition asks_nameless :: completion where
  "asks_nameless =
     Completion (Some [Choice (Some (AssistantMessage None (Some [ToolCall ''call_1'' None])))])"

definition says_done :: completion where
  "says_done = Completion (Some [Choice (Some (AssistantMessage (Some ''done'') None))])"

definition scripted :: "nat \<Rightarrow> nat \<Rightarrow> litellm_request \<Rightarrow> fetch_result" where
  "scripted n k request =
     FetchResponse (Response 200 [] (Inr (if k < n then asks_get_user else says_done)))"

definition scripted_nameless :: "nat \<Rightarrow> nat \<Rightarrow> litellm_request \<Rightarrow> fetch_result" where
  "scripted_nameless n k request =
     FetchResponse (Response 200 [] (Inr (if k < n then asks_nameless else says_done)))"

definition demo_prompts :: "string \<Rightarrow> string \<Rightarrow> string" where
  "demo_prompts domain level = ''You are a '' @ level @ '' assistant for '' @ domain @ ''.''"

definition hello :: litellm_request where
  "hello = \<lparr>messages = [Turn ''system'' ''Be brief.'', Turn ''user'' ''Hello!''], model = None\<rparr>"

text \<open>
  The two turns one round of \<open>scripted\<close> adds for a request without a user, the request
  after \<open>k\<close> such rounds, and claims whose expiry is beyond the range of \<^verbatim>\<open>Date\<close>.
\<close>

definition get_user_round :: "chat_turn list" where
  "get_user_round =
     [AssistantCalls None [get_user_call],
      ToolTurn ''call_1'' (ToolError ''No authenticated user''
        ''This endpoint requires authentication to retrieve user information'')]"

definition hello_after :: "nat \<Rightarrow> litellm_request" where
  "hello_after k = hello\<lparr>messages := messages hello @ concat (replicate k get_user_round)\<rparr>"

definition far_future :: JwtPayload where
  "far_future =
     \<lparr>iss = Some ''example-app'', sub = Some ''ops'', aud = Some ''example-app'',
      exp = Some 9000000000000, nbf = None, iat = Some 1700000000, role = Some ''admin'',
      scope = None\<rparr>"

definition client_credentials_request :: "string \<Rightarrow> string \<Rightarrow> string option \<Rightarrow> token_request" where
  "client_credentials_request cid secret sc =
     \<lparr>grant_type = Some ''client_credentials'', client_id = Some cid, client_secret = Some secret,
      req_scope = sc, req_username = None, req_password = None\<rparr>"

definition password_request :: "string \<Rightarrow> string \<Rightarrow> string option \<Rightarrow> token_request" where
  "password_request name pw sc =
     \<lparr>grant_type = Some ''password'', client_id = None, client_secret = None,
      req_scope = sc, req_username = Some name, req_password = Some pw\<rparr>"

definition invalid_client :: oauth_reply where
  "invalid_client = OAuthReply 401 (OAuthError ''invalid_client'' ''Invalid client credentials'')"

definition invalid_user :: oauth_reply where
  "invalid_user = OAuthReply 401 (OAuthError ''invalid_grant'' ''Invalid username or password'')"

definition demo_env :: env where
  "demo_env = [''OAUTH_CLIENT_ID_ADMIN'' \<mapsto> ''ops'', ''OAUTH_CLIENT_SECRET_ADMIN'' \<mapsto> ''s3cret'',
               ''OAUTH_USERNAME_READONLY'' \<mapsto> ''ann'', ''OAUTH_PASSWORD_READONLY'' \<mapsto> ''pw'']"

definition demo_sign :: signer where
  "demo_sign p k a = Inr ''signed''"

definition demo_keys :: KeyPair where
  "demo_keys = \<lparr>privateKey = PrivateKey 1, publicKey = PublicKey 1, kid = ''0123456789abcdef''\<rparr>"

definition rejecting :: "jwt_error \<Rightarrow> verifier" where
  "rejecting e token key algorithms now = Inl e"

section \<open>Properties of the tool-call loop\<close>

lemma toolLoop_final:
  assumes "iteration < MAX_TOOL_ITERATIONS" "final_answer (fetch iteration request) = Some data"
  shows "toolLoop fetch user iteration request t =
           (Reply 200 (Data data), t\<lparr>fetches := fetches t @ [request]\<rparr>)"
  using assms
  by (subst toolLoop.simps)
     (auto simp: final_answer_def Let_def split: fetch_result.splits sum.splits if_splits option.splits)

lemma toolLoop_limit:
  "toolLoop fetch user MAX_TOOL_ITERATIONS request t =
     (Reply 500 (ErrorBody ''Tool call limit exceeded'' ''Maximum tool call iterations (10) reached''), t)"
  by (subst toolLoop.simps) simp

lemma run_tool_calls_turns:
  "map (tool_outcome user) cs = map Inr turns \<Longrightarrow> run_tool_calls user cs = (turns, None)"
proof (induction cs arbitrary: turns)
  case Nil
  then show ?case by simp
next
  case (Cons c cs)
  from Cons.prems obtain turn rest where t: "turns = turn # rest"
    and c: "tool_outcome user c = Inr turn"
    and r: "map (tool_outcome user) cs = map Inr rest"
    by (cases turns) auto
  from Cons.IH [OF r] c show ?case
    by (auto simp: t tool_outcome_def split: option.splits sum.splits)
qed

lemma run_tool_calls_thrown:
  "map (tool_outcome user) good = map Inr turns \<Longrightarrow> tool_outcome user c = Inl msg \<Longrightarrow>
     run_tool_calls user (good @ c # rest) = (turns, Some msg)"
proof (induction good arbitrary: turns)
  case Nil
  then show ?case by (auto simp: tool_outcome_def split: option.splits sum.splits)
next
  case (Cons g good)
  from Cons.prems(1) obtain turn more where t: "turns = turn # more"
    and g: "tool_outcome user g = Inr turn"
    and r: "map (tool_outcome user) good = map Inr more"
    by (cases turns) auto
  from Cons.IH [OF r Cons.prems(2)] g show ?case
    by (auto simp: t tool_outcome_def split: option.splits sum.splits)
qed

lemma tool_request_calls:
  "assistantMessage data = Some m \<Longrightarrow> msg_tool_calls m = Some cs \<Longrightarrow> cs \<noteq> [] \<Longrightarrow>
     tool_request data = Some (m, cs)"
  by (cases cs) (simp_all add: tool_request_def)

lemma toolLoop_round:
  assumes "iteration < MAX_TOOL_ITERATIONS"
    and "fetch iteration rq = FetchResponse r" "ok r" "resp_json r = Inr data"
    and "assistantMessage data = Some m" "msg_tool_calls m = Some cs" "cs \<noteq> []"
    and "map (tool_outcome user) cs = map Inr turns"
  shows "toolLoop fetch user iteration rq t =
           toolLoop fetch user (Suc iteration)
             (rq\<lparr>messages := messages rq @ AssistantCalls (or_else (msg_content m)) cs # turns\<rparr>)
             (t\<lparr>fetches := fetches t @ [rq], executed := executed t @ cs, rounds := Suc (rounds t)\<rparr>)"
  by (subst toolLoop.simps)
     (simp add: assms(1-4) tool_request_calls [OF assms(5-7)] run_tool_calls_turns [OF assms(8)]
        push_tool_round_def Let_def)

lemma toolLoop_thrown:
  assumes "iteration < MAX_TOOL_ITERATIONS"
    and "fetch iteration rq = FetchResponse r" "ok r" "resp_json r = Inr data"
    and "assistantMessage data = Some m" "msg_tool_calls m = Some (good @ c # rest)"
    and "map (tool_outcome user) good = map Inr turns" "tool_outcome user c = Inl msg"
  shows "toolLoop fetch user iteration rq t =
           (Reply 500 (ErrorBody ''Internal server error'' msg),
            t\<lparr>fetches := fetches t @ [rq], executed := executed t @ good\<rparr>)"
proof -
  have ne: "good @ c # rest \<noteq> []" by simp
  have len: "length turns = length good"
    using map_eq_imp_length_eq [OF assms(7)] by simp
  show ?thesis
    by (subst toolLoop.simps)
       (simp add: assms(1-4) tool_request_calls [OF assms(5,6) ne]
          run_tool_calls_thrown [OF assms(7,8)] len Let_def)
qed

lemma toolLoop_rounds:
  assumes "tool_rounds fetch user i rq n sent calls rq'" "i + n \<le> MAX_TOOL_ITERATIONS"
  shows "toolLoop fetch user i rq t =
           toolLoop fetch user (i + n) rq'
             (t\<lparr>fetches := fetches t @ sent, executed := executed t @ calls, rounds := rounds t + n\<rparr>)
         \<and> length sent = n"
  using assms
proof (induction arbitrary: t rule: tool_rounds.induct)
  case (no_round i rq)
  show ?case by simp
next
  case (one_more i rq r data m cs turns n sent calls rq')
  have lt: "i < MAX_TOOL_ITERATIONS" using one_more.prems by simp
  have le: "Suc i + n \<le> MAX_TOOL_ITERATIONS" using one_more.prems by simp
  note step = toolLoop_round [of i fetch rq r data m cs user turns t, OF lt one_more.hyps(1-7)]
  note rest = one_more.IH [OF le,
      of "t\<lparr>fetches := fetches t @ [rq], executed := executed t @ cs, rounds := Suc (rounds t)\<rparr>"]
  show ?case
    unfolding step using rest by simp
qed

text \<open>
  C2, as the code has it. The loop has a ceiling of 10. Let the upstream service ask for
  tool calls in its first \<open>N\<close> answers, each tool call naming a function and running
  without an error, so that the handler runs exactly those \<open>N\<close> rounds of tool calls, in
  order, each tool result fed back as a tool turn. When \<open>N < 10\<close> and the next answer has
  no tool calls, the handler makes \<open>N + 1\<close> upstream calls and answers 200 with that
  answer. When \<open>N = 10\<close>, the handler makes exactly 10 upstream calls and answers 500 with
  the error "Tool call limit exceeded". When \<open>N < 10\<close> and the next answer asks for a tool
  call that names no function or whose execution throws, the handler makes \<open>N + 1\<close>
  upstream calls and answers 500 with the error "Internal server error" and the message
  thrown, having run the tool calls before that one.
\<close>

theorem tool_loop_ceiling:
  "(N < MAX_TOOL_ITERATIONS \<and> tool_rounds fetch user 0 request N sent calls rq'
      \<and> final_answer (fetch N rq') = Some data \<longrightarrow>
      toolLoop fetch user 0 request no_trace =
        (Reply 200 (Data data), \<lparr>fetches = sent @ [rq'], executed = calls, rounds = N\<rparr>)
      \<and> length (sent @ [rq']) = N + 1)
   \<and> (tool_rounds fetch user 0 request MAX_TOOL_ITERATIONS sent calls rq' \<longrightarrow>
      toolLoop fetch user 0 request no_trace =
        (Reply 500 (ErrorBody ''Tool call limit exceeded'' ''Maximum tool call iterations (10) reached''),
         \<lparr>fetches = sent, executed = calls, rounds = 10\<rparr>)
      \<and> length sent = 10)
   \<and> (N < MAX_TOOL_ITERATIONS \<and> tool_rounds fetch user 0 request N sent calls rq'
      \<and> fetch N rq' = FetchResponse r \<and> ok r \<and> resp_json r = Inr data
      \<and> assistantMessage data = Some m \<and> msg_tool_calls m = Some (good @ c # rest)
      \<and> map (tool_outcome user) good = map Inr turns \<and> tool_outcome user c = Inl msg \<longrightarrow>
      toolLoop fetch user 0 request no_trace =
        (Reply 500 (ErrorBody ''Internal server error'' msg),
         \<lparr>fetches = sent @ [rq'], executed = calls @ good, rounds = N\<rparr>)
      \<and> length (sent @ [rq']) = N + 1)"
proof (intro conjI impI)
  assume h: "N < MAX_TOOL_ITERATIONS \<and> tool_rounds fetch user 0 request N sent calls rq'
      \<and> final_answer (fetch N rq') = Some data"
  then have r: "tool_rounds fetch user 0 request N sent calls rq'" and le: "0 + N \<le> MAX_TOOL_ITERATIONS"
    and lt: "N < MAX_TOOL_ITERATIONS" and f: "final_answer (fetch N rq') = Some data"
    by simp_all
  from toolLoop_rounds [OF r le, of no_trace]
  have run: "toolLoop fetch user 0 request no_trace =
      toolLoop fetch user N rq' \<lparr>fetches = sent, executed = calls, rounds = N\<rparr>"
    and len: "length sent = N"
    by (simp_all add: no_trace_def)
  show "toolLoop fetch user 0 request no_trace =
        (Reply 200 (Data data), \<lparr>fetches = sent @ [rq'], executed = calls, rounds = N\<rparr>)"
    unfolding run toolLoop_final [of N fetch rq' data user, OF lt f] by simp
  show "length (sent @ [rq']) = N + 1" using len by simp
next
  assume r: "tool_rounds fetch user 0 request MAX_TOOL_ITERATIONS sent calls rq'"
  have le: "0 + MAX_TOOL_ITERATIONS \<le> MAX_TOOL_ITERATIONS" by simp
  from toolLoop_rounds [OF r le, of no_trace]
  have run: "toolLoop fetch user 0 request no_trace =
      toolLoop fetch user MAX_TOOL_ITERATIONS rq'
        \<lparr>fetches = sent, executed = calls, rounds = MAX_TOOL_ITERATIONS\<rparr>"
    and len: "length sent = MAX_TOOL_ITERATIONS"
    by (simp_all add: no_trace_def)
  show "toolLoop fetch user 0 request no_trace =
        (Reply 500 (ErrorBody ''Tool call limit exceeded'' ''Maximum tool call iterations (10) reached''),
         \<lparr>fetches = sent, executed = calls, rounds = 10\<rparr>)"
    unfolding run toolLoop_limit by (simp add: MAX_TOOL_ITERATIONS_def)
  show "length sent = 10" using len by (simp add: MAX_TOOL_ITERATIONS_def)
next
  assume h: "N < MAX_TOOL_ITERATIONS \<and> tool_rounds fetch user 0 request N sent calls rq'
      \<and> fetch N rq' = FetchResponse r \<and> ok r \<and> resp_json r = Inr data
      \<and> assistantMessage data = Some m \<and> msg_tool_calls m = Some (good @ c # rest)
      \<and> map (tool_outcome user) good = map Inr turns \<and> tool_outcome user c = Inl msg"
  then have r: "tool_rounds fetch user 0 request N sent calls rq'" and le: "0 + N \<le> MAX_TOOL_ITERATIONS"
    and lt: "N < MAX_TOOL_ITERATIONS"
    and f: "fetch N rq' = FetchResponse r" "ok r" "resp_json r = Inr data"
      "assistantMessage data = Some m" "msg_tool_calls m = Some (good @ c # rest)"
      "map (tool_outcome user) good = map Inr turns" "tool_outcome user c = Inl msg"
    by simp_all
  from toolLoop_rounds [OF r le, of no_trace]
  have run: "toolLoop fetch user 0 request no_trace =
      toolLoop fetch user N rq' \<lparr>fetches = sent, executed = calls, rounds = N\<rparr>"
    and len: "length sent = N"
    by (simp_all add: no_trace_def)
  show "toolLoop fetch user 0 request no_trace =
        (Reply 500 (ErrorBody ''Internal server error'' msg),
         \<lparr>fetches = sent @ [rq'], executed = calls @ good, rounds = N\<rparr>)"
    unfolding run toolLoop_thrown [of N fetch rq' r data m good c rest user turns msg, OF lt f] by simp
  show "length (sent @ [rq']) = N + 1" using len by simp
qed

lemma get_user_turn:
  "tool_outcome None get_user_call =
     Inr (ToolTurn ''call_1'' (ToolError ''No authenticated user''
       ''This endpoint requires authentication to retrieve user information''))"
  by (simp add: tool_outcome_def get_user_call_def executeToolCall_def)

lemma hello_after_Suc:
  "hello_after (Suc k) =
     (hello_after k)\<lparr>messages := messages (hello_after k) @ AssistantCalls (or_else None) [get_user_call]
        # [ToolTurn ''call_1'' (ToolError ''No authenticated user''
             ''This endpoint requires authentication to retrieve user information'')]\<rparr>"
proof -
  have "replicate (Suc k) get_user_round = replicate k get_user_round @ [get_user_round]"
    by (simp add: replicate_append_same)
  then have "concat (replicate (Suc k) get_user_round) = concat (replicate k get_user_round) @ get_user_round"
    by (simp only: concat_append concat.simps append_Nil2)
  then show ?thesis
    by (simp add: hello_after_def get_user_round_def or_else_def del: replicate_Suc)
qed

lemma scripted_rounds:
  "i + n \<le> M \<Longrightarrow>
     tool_rounds (scripted M) None i (hello_after j) n (map hello_after [j..<j + n])
       (replicate n get_user_call) (hello_after (j + n))"
proof (induction n arbitrary: i j)
  case 0
  show ?case by (simp add: tool_rounds.no_round)
next
  case (Suc n)
  have lt: "i < M" using Suc.prems by simp
  have rest: "tool_rounds (scripted M) None (Suc i) (hello_after (Suc j)) n
      (map hello_after [Suc j..<Suc j + n]) (replicate n get_user_call) (hello_after (Suc j + n))"
    using Suc.IH [of "Suc i" "Suc j"] Suc.prems by simp
  have "tool_rounds (scripted M) None i (hello_after j) (Suc n)
      (hello_after j # map hello_after [Suc j..<Suc j + n]) ([get_user_call] @ replicate n get_user_call)
      (hello_after (Suc j + n))"
  proof (rule tool_rounds.one_more)
    show "scripted M i (hello_after j) = FetchResponse (Response 200 [] (Inr asks_get_user))"
      using lt by (simp add: scripted_def)
    show "ok (Response 200 [] (Inr asks_get_user))" by (simp add: ok_def)
    show "resp_json (Response 200 [] (Inr asks_get_user)) = Inr asks_get_user" by simp
    show "assistantMessage asks_get_user = Some (AssistantMessage None (Some [get_user_call]))"
      by (simp add: assistantMessage_def asks_get_user_def)
    show "msg_tool_calls (AssistantMessage None (Some [get_user_call])) = Some [get_user_call]" by simp
    show "[get_user_call] \<noteq> []" by simp
    show "map (tool_outcome None) [get_user_call] =
        map Inr [ToolTurn ''call_1'' (ToolError ''No authenticated user''
          ''This endpoint requires authentication to retrieve user information'')]"
      by (simp add: get_user_turn)
    show "tool_rounds (scripted M) None (Suc i)
        ((hello_after j)\<lparr>messages := messages (hello_after j)
            @ AssistantCalls (or_else (msg_content (AssistantMessage None (Some [get_user_call])))) [get_user_call]
            # [ToolTurn ''call_1'' (ToolError ''No authenticated user''
                 ''This endpoint requires authentication to retrieve user information'')]\<rparr>)
        n (map hello_after [Suc j..<Suc j + n]) (replicate n get_user_call) (hello_after (Suc j + n))"
      using rest by (simp add: hello_after_Suc)
  qed
  moreover have "map hello_after [j..<j + Suc n] = hello_after j # map hello_after [Suc j..<Suc j + n]"
    by (simp add: upt_conv_Cons del: upt_Suc)
  ultimately show ?case by simp
qed

theorem tool_loop_ceiling_witness:
  "toolLoop (scripted 2) None 0 hello no_trace =
     (Reply 200 (Data says_done),
      \<lparr>fetches = [hello_after 0, hello_after 1, hello_after 2],
       executed = [get_user_call, get_user_call], rounds = 2\<rparr>)
   \<and> toolLoop (scripted 10) None 0 hello no_trace =
     (Reply 500 (ErrorBody ''Tool call limit exceeded'' ''Maximum tool call iterations (10) reached''),
      \<lparr>fetches = map hello_after [0..<10], executed = replicate 10 get_user_call, rounds = 10\<rparr>)
   \<and> toolLoop (scripted_nameless 1) None 0 hello no_trace =
     (Reply 500 (ErrorBody ''Internal server error'' no_function),
      \<lparr>fetches = [hello], executed = [], rounds = 0\<rparr>)"
proof -
  have h0: "hello_after 0 = hello" by (simp add: hello_after_def)
  have two: "tool_rounds (scripted 2) None 0 hello 2 (map hello_after [0..<0 + 2])
      (replicate 2 get_user_call) (hello_after (0 + 2))"
    using scripted_rounds [of 0 2 2 0] by (simp add: h0)
  have ten: "tool_rounds (scripted 10) None 0 hello MAX_TOOL_ITERATIONS (map hello_after [0..<0 + 10])
      (replicate 10 get_user_call) (hello_after (0 + 10))"
    using scripted_rounds [of 0 10 10 0] by (simp add: h0 MAX_TOOL_ITERATIONS_def)
  have fin: "final_answer (scripted 2 2 (hello_after (0 + 2))) = Some says_done"
    by (simp add: final_answer_def scripted_def ok_def tool_request_def assistantMessage_def
        says_done_def)
  have lt: "(2::nat) < MAX_TOOL_ITERATIONS" by (simp add: MAX_TOOL_ITERATIONS_def)
  have l: "map hello_after [0..<0 + 2] @ [hello_after (0 + 2)] = [hello_after 0, hello_after 1, hello_after 2]"
    by (simp add: upt_rec numeral_2_eq_2)
  have e: "replicate 2 get_user_call = [get_user_call, get_user_call]"
    by (simp add: numeral_2_eq_2)
  from tool_loop_ceiling [of 2 "scripted 2" None hello "map hello_after [0..<0 + 2]"
      "replicate 2 get_user_call" "hello_after (0 + 2)" says_done] two fin lt
  have a: "toolLoop (scripted 2) None 0 hello no_trace =
     (Reply 200 (Data says_done),
      \<lparr>fetches = [hello_after 0, hello_after 1, hello_after 2],
       executed = [get_user_call, get_user_call], rounds = 2\<rparr>)"
    unfolding l e by blast
  from tool_loop_ceiling [of 2 "scripted 10" None hello "map hello_after [0..<0 + 10]"
      "replicate 10 get_user_call" "hello_after (0 + 10)" says_done] ten
  have b: "toolLoop (scripted 10) None 0 hello no_trace =
     (Reply 500 (ErrorBody ''Tool call limit exceeded'' ''Maximum tool call iterations (10) reached''),
      \<lparr>fetches = map hello_after [0..<10], executed = replicate 10 get_user_call, rounds = 10\<rparr>)"
    by simp
  from tool_loop_ceiling [where N = 0 and fetch = "scripted_nameless 1" and user = None
      and request = hello and sent = "[]" and calls = "[]" and rq' = hello
      and r = "Response 200 [] (Inr asks_nameless)" and data = asks_nameless
      and m = "AssistantMessage None (Some [ToolCall ''call_1'' None])"
      and good = "[]" and c = "ToolCall ''call_1'' None" and rest = "[]" and turns = "[]"
      and msg = no_function]
  have c: "toolLoop (scripted_nameless 1) None 0 hello no_trace =
     (Reply 500 (ErrorBody ''Internal server error'' no_function),
      \<lparr>fetches = [hello], executed = [], rounds = 0\<rparr>)"
    by (simp add: MAX_TOOL_ITERATIONS_def tool_rounds.no_round scripted_nameless_def ok_def
        assistantMessage_def asks_nameless_def tool_outcome_def)
  from a b c show ?thesis by simp
qed

text \<open>
  C2 as stated fails when a tool call cannot be run. An upstream service that asks, in
  every answer, for a tool call without \<open>function\<close> is called once: reading the name of
  the function throws, and the handler answers 500 "Internal server error", not the
  limit error after 10 calls. The same happens when it asks for \<open>get_user\<close> and the
  expiry of the user's token is beyond the range of \<^verbatim>\<open>Date\<close>.
\<close>

theorem tool_call_throws_counterexample:
  "requests_tools (scripted_nameless 10 0 hello)
   \<and> toolLoop (scripted_nameless 10) None 0 hello no_trace =
       (Reply 500 (ErrorBody ''Internal server error'' no_function),
        \<lparr>fetches = [hello], executed = [], rounds = 0\<rparr>)
   \<and> requests_tools (scripted 10 0 hello)
   \<and> toolLoop (scripted 10) (Some far_future) 0 hello no_trace =
       (Reply 500 (ErrorBody ''Internal server error'' ''Invalid time value''),
        \<lparr>fetches = [hello], executed = [], rounds = 0\<rparr>)"
proof -
  have a: "requests_tools (scripted_nameless 10 0 hello)"
    by (simp add: requests_tools_def scripted_nameless_def ok_def tool_request_def
        assistantMessage_def asks_nameless_def)
  have b: "toolLoop (scripted_nameless n) None 0 hello no_trace =
       (Reply 500 (ErrorBody ''Internal server error'' no_function),
        \<lparr>fetches = [hello], executed = [], rounds = 0\<rparr>)" if "0 < n" for n
    using that
    by (subst toolLoop.simps)
       (simp add: MAX_TOOL_ITERATIONS_def scripted_nameless_def ok_def tool_request_def
         assistantMessage_def asks_nameless_def no_trace_def)
  have c: "requests_tools (scripted 10 0 hello)"
    by (simp add: requests_tools_def scripted_def ok_def tool_request_def
        assistantMessage_def asks_get_user_def)
  have d: "toolLoop (scripted 10) (Some far_future) 0 hello no_trace =
       (Reply 500 (ErrorBody ''Internal server error'' ''Invalid time value''),
        \<lparr>fetches = [hello], executed = [], rounds = 0\<rparr>)"
    by (subst toolLoop.simps)
       (simp add: MAX_TOOL_ITERATIONS_def scripted_def ok_def tool_request_def
         assistantMessage_def asks_get_user_def get_user_call_def no_trace_def executeToolCall_def
         far_future_def date_ms_def toISOString_def)
  from a b [of 10] c d show ?thesis by simp
qed

section \<open>Properties of the token issuer\<close>


lemma clients_configured:
  "c \<in> set (clients e) \<Longrightarrow> clientId c \<noteq> [] \<and> clientSecret c \<noteq> []"
  by (simp only: clients_def set_filter mem_Collect_eq simp_thms)

lemma users_configured:
  "u \<in> set (users e) \<Longrightarrow> username u \<noteq> [] \<and> password u \<noteq> []"
  by (simp only: users_def set_filter mem_Collect_eq simp_thms)

lemma parse_3600: "parseInt ''3600'' = Some 3600"
  by (simp add: parseInt_def is_space_def is_digit_def digits_value_def digit_value_def)

lemma split_no_sep: "sep \<notin> set s \<Longrightarrow> split sep s = [s]"
  by (induction s) auto

lemma split_append: "sep \<notin> set a \<Longrightarrow> split sep (a @ sep # b) = a # split sep b"
  by (induction a) auto

lemma split_nonempty: "split sep s \<noteq> []"
  by (induction s) (auto split: list.splits)

lemma split_length: "length (split sep s) = Suc (length (filter (\<lambda>c. c = sep) s))"
proof (induction s)
  case Nil
  show ?case by simp
next
  case (Cons c cs)
  obtain p ps where "split sep cs = p # ps"
    using split_nonempty [of sep cs] by (cases "split sep cs") auto
  with Cons show ?case by simp
qed

lemma split_one: "split sep s = [b] \<longleftrightarrow> s = b \<and> sep \<notin> set b"
proof
  assume h: "split sep s = [b]"
  have "length (split sep s) = 1" using h by simp
  then have "filter (\<lambda>c. c = sep) s = []" by (simp add: split_length)
  then have "sep \<notin> set s" by (auto simp: filter_empty_conv)
  with h show "s = b \<and> sep \<notin> set b" by (simp add: split_no_sep)
next
  assume "s = b \<and> sep \<notin> set b"
  then show "split sep s = [b]" by (simp add: split_no_sep)
qed

lemma split_two:
  "split sep s = [a, b] \<longleftrightarrow> s = a @ sep # b \<and> sep \<notin> set a \<and> sep \<notin> set b"
proof (induction s arbitrary: a)
  case Nil
  then show ?case by auto
next
  case (Cons c cs)
  show ?case
  proof (cases "c = sep")
    case True
    have "split sep cs = [b] \<longleftrightarrow> cs = b \<and> sep \<notin> set b"
      by (rule split_one)
    moreover have "sep # cs = a @ sep # b \<and> sep \<notin> set a \<longleftrightarrow> a = [] \<and> cs = b"
      by (cases a) auto
    ultimately show ?thesis using True by auto
  next
    case False
    obtain p ps where sp: "split sep cs = p # ps"
      using split_nonempty [of sep cs] by (cases "split sep cs") auto
    have l: "split sep (c # cs) = [a, b] \<longleftrightarrow> (\<exists>a'. a = c # a' \<and> split sep cs = [a', b])"
      using False sp by auto
    have r: "c # cs = a @ sep # b \<and> sep \<notin> set a \<and> sep \<notin> set b
        \<longleftrightarrow> (\<exists>a'. a = c # a' \<and> cs = a' @ sep # b \<and> sep \<notin> set a' \<and> sep \<notin> set b)"
      using False by (cases a) auto
    show ?thesis unfolding l r using Cons.IH by simp
  qed
qed

lemma find_Some_set: "find P xs = Some x \<Longrightarrow> x \<in> set xs \<and> P x"
  by (induction xs) (auto split: if_splits)

text \<open>
  C3. A client-credentials request whose client_id and client_secret match a configured
  credential \<open>c\<close> (the one \<^verbatim>\<open>clients.find\<close> returns) is answered, once the key pair has been
  generated and the token signed, with status 200 and
  \<open>{access_token, token_type = "Bearer", expires_in = lifetime}\<close>, and with the scope exactly
  when the request carries a non-empty one. The claims given to \<^verbatim>\<open>jwt.sign\<close> have
  \<open>sub\<close> the client identifier, \<open>iat = now\<close>, \<open>exp = now + lifetime\<close> and the role of \<open>c\<close>.
  The lifetime is 3600 when the environment does not set it. Both versions of the handler
  agree.
\<close>

theorem token_issued:
  assumes "find (\<lambda>c. clientId c = cid \<and> clientSecret c = secret) (clients e) = Some c"
    and "TOKEN_EXPIRES_IN e = Some lifetime"
    and "sign \<lparr>iss = Some ''example-app'', sub = Some cid, aud = Some ''example-app'',
               exp = Some (now + lifetime), nbf = None, iat = Some now,
               role = Some (role_name (client_role c)),
               scope = (if sc = None \<or> sc = Some [] then None else sc)\<rparr>
           (privateKey kp) ''RS256'' = Inr accessToken"
    and "req = \<lparr>grant_type = Some ''client_credentials'', client_id = Some cid,
                client_secret = Some secret, req_scope = sc, req_username = un, req_password = pw\<rparr>"
  shows "tokenHandler sign (clients e) lifetime (Some kp) now req =
           OAuthReply 200 (TokenResponse accessToken ''Bearer'' lifetime
             (if sc = None \<or> sc = Some [] then None else sc))
         \<and> tokenHandler_grants sign (clients e) (users e) lifetime (Some kp) now req =
           OAuthReply 200 (TokenResponse accessToken ''Bearer'' lifetime
             (if sc = None \<or> sc = Some [] then None else sc))
         \<and> (e ''OAUTH_TOKEN_EXPIRES_IN'' = None \<longrightarrow> lifetime = 3600)"
proof -
  from find_Some_set [OF assms(1)] have c: "c \<in> set (clients e)" "clientId c = cid" "clientSecret c = secret"
    by simp_all
  from clients_configured [OF c(1)] c have ne: "cid \<noteq> []" "secret \<noteq> []" by simp_all
  from c(1) have cs: "clients e \<noteq> []" by auto
  have f: "falsy sc \<longleftrightarrow> sc = None \<or> sc = Some []"
    by (cases sc) (simp_all add: falsy_def)
  have issue: "issue_token sign lifetime (Some kp) now cid (client_role c) sc =
        OAuthReply 200 (TokenResponse accessToken ''Bearer'' lifetime
             (if sc = None \<or> sc = Some [] then None else sc))"
    using assms(3) by (simp add: issue_token_def getPrivateKey_def token_payload_def f)
  have a: "tokenHandler sign (clients e) lifetime (Some kp) now req =
           OAuthReply 200 (TokenResponse accessToken ''Bearer'' lifetime
             (if sc = None \<or> sc = Some [] then None else sc))"
    using assms(1) ne cs issue by (simp add: tokenHandler_def assms(4) falsy_def)
  have b: "tokenHandler_grants sign (clients e) (users e) lifetime (Some kp) now req =
           OAuthReply 200 (TokenResponse accessToken ''Bearer'' lifetime
             (if sc = None \<or> sc = Some [] then None else sc))"
    using assms(1) ne cs issue by (simp add: tokenHandler_grants_def assms(4) falsy_def)
  have d: "e ''OAUTH_TOKEN_EXPIRES_IN'' = None \<longrightarrow> lifetime = 3600"
    using assms(2) by (auto simp: TOKEN_EXPIRES_IN_def parse_3600)
  from a b d show ?thesis by blast
qed

lemma demo_clients: "clients demo_env = [\<lparr>clientId = ''ops'', clientSecret = ''s3cret'', client_role = admin\<rparr>]"
  by (simp add: clients_def demo_env_def env_or_empty_def)

lemma demo_users: "users demo_env = [\<lparr>username = ''ann'', password = ''pw'', user_config_role = readonly\<rparr>]"
  by (simp add: users_def demo_env_def env_or_empty_def)

lemma demo_lifetime: "TOKEN_EXPIRES_IN demo_env = Some 3600"
  by (simp add: TOKEN_EXPIRES_IN_def demo_env_def parse_3600)

theorem token_issued_witness:
  "tokenHandler demo_sign (clients demo_env) 3600 (Some demo_keys) 1700000000
     \<lparr>grant_type = Some ''client_credentials'', client_id = Some ''ops'',
      client_secret = Some ''s3cret'', req_scope = Some ''chat'', req_username = None,
      req_password = None\<rparr>
   = OAuthReply 200 (TokenResponse ''signed'' ''Bearer'' 3600 (Some ''chat''))"
  using token_issued [of "''ops''" "''s3cret''" demo_env
      "\<lparr>clientId = ''ops'', clientSecret = ''s3cret'', client_role = admin\<rparr>" 3600 demo_sign
      1700000000 "Some ''chat''" demo_keys "''signed''" _ None None]
  by (simp add: demo_clients demo_lifetime demo_sign_def)

lemma no_client_match:
  assumes "cs \<noteq> []" "cid \<noteq> []" "secret \<noteq> []"
    and "\<forall>c\<in>set cs. \<not> (clientId c = cid \<and> clientSecret c = secret)"
  shows "tokenHandler sign cs lifetime keyPair now (client_credentials_request cid secret sc) = invalid_client"
    and "tokenHandler_grants sign cs us lifetime keyPair now (client_credentials_request cid secret sc) = invalid_client"
proof -
  have "find (\<lambda>c. clientId c = cid \<and> clientSecret c = secret) cs = None"
    using assms(4) by (simp add: find_None_iff)
  then show "tokenHandler sign cs lifetime keyPair now (client_credentials_request cid secret sc) = invalid_client"
    and "tokenHandler_grants sign cs us lifetime keyPair now (client_credentials_request cid secret sc) = invalid_client"
    using assms(1-3)
    by (simp_all add: tokenHandler_def tokenHandler_grants_def client_credentials_request_def
        falsy_def invalid_client_def)
qed

lemma no_user_match:
  assumes "us \<noteq> []" "name \<noteq> []" "pw \<noteq> []"
    and "\<forall>u\<in>set us. \<not> (username u = name \<and> password u = pw)"
  shows "tokenHandler_grants sign cs us lifetime keyPair now (password_request name pw sc) = invalid_user"
proof -
  have "find (\<lambda>u. username u = name \<and> password u = pw) us = None"
    using assms(4) by (simp add: find_None_iff)
  then show ?thesis
    using assms(1-3)
    by (simp add: tokenHandler_grants_def password_request_def falsy_def invalid_user_def)
qed

text \<open>
  C7. Two requests that fail the credential lookup, one naming a configured identifier
  with a wrong secret and one naming an identifier that is not configured, get the same
  answer. For the client-credentials grant, in both versions of the handler and whatever
  users are configured, that answer is 401 with \<open>invalid_client\<close> and one description. For
  the password grant, whatever clients are configured, it is 401 with \<open>invalid_grant\<close>
  and one description.
\<close>

theorem uniform_invalid_credentials:
  "(c \<in> set (clients e) \<and> secret1 \<noteq> []
      \<and> (\<forall>c'\<in>set (clients e). clientId c' = clientId c \<longrightarrow> clientSecret c' \<noteq> secret1)
      \<and> id2 \<noteq> [] \<and> (\<forall>c'\<in>set (clients e). clientId c' \<noteq> id2) \<and> secret2 \<noteq> [] \<longrightarrow>
      tokenHandler sign (clients e) lifetime keyPair now (client_credentials_request (clientId c) secret1 sc1)
        = OAuthReply 401 (OAuthError ''invalid_client'' ''Invalid client credentials'')
      \<and> tokenHandler sign (clients e) lifetime keyPair now (client_credentials_request id2 secret2 sc2)
        = OAuthReply 401 (OAuthError ''invalid_client'' ''Invalid client credentials'')
      \<and> tokenHandler_grants sign (clients e) us lifetime keyPair now
          (client_credentials_request (clientId c) secret1 sc1)
        = OAuthReply 401 (OAuthError ''invalid_client'' ''Invalid client credentials'')
      \<and> tokenHandler_grants sign (clients e) us lifetime keyPair now
          (client_credentials_request id2 secret2 sc2)
        = OAuthReply 401 (OAuthError ''invalid_client'' ''Invalid client credentials''))
   \<and> (u \<in> set (users e) \<and> pw1 \<noteq> []
      \<and> (\<forall>u'\<in>set (users e). username u' = username u \<longrightarrow> password u' \<noteq> pw1)
      \<and> name2 \<noteq> [] \<and> (\<forall>u'\<in>set (users e). username u' \<noteq> name2) \<and> pw2 \<noteq> [] \<longrightarrow>
      tokenHandler_grants sign cs (users e) lifetime keyPair now (password_request (username u) pw1 sc1)
        = OAuthReply 401 (OAuthError ''invalid_grant'' ''Invalid username or password'')
      \<and> tokenHandler_grants sign cs (users e) lifetime keyPair now (password_request name2 pw2 sc2)
        = OAuthReply 401 (OAuthError ''invalid_grant'' ''Invalid username or password''))"
proof (intro conjI impI)
  assume h: "c \<in> set (clients e) \<and> secret1 \<noteq> []
      \<and> (\<forall>c'\<in>set (clients e). clientId c' = clientId c \<longrightarrow> clientSecret c' \<noteq> secret1)
      \<and> id2 \<noteq> [] \<and> (\<forall>c'\<in>set (clients e). clientId c' \<noteq> id2) \<and> secret2 \<noteq> []"
  then have c: "c \<in> set (clients e)" and s1: "secret1 \<noteq> []" and i2: "id2 \<noteq> []" and s2: "secret2 \<noteq> []"
    by simp_all
  have ne: "clients e \<noteq> []" using c by auto
  have cid: "clientId c \<noteq> []" using clients_configured [OF c] by simp
  have m1: "\<forall>c'\<in>set (clients e). \<not> (clientId c' = clientId c \<and> clientSecret c' = secret1)"
    using h by blast
  have m2: "\<forall>c'\<in>set (clients e). \<not> (clientId c' = id2 \<and> clientSecret c' = secret2)"
    using h by blast
  show "tokenHandler sign (clients e) lifetime keyPair now (client_credentials_request (clientId c) secret1 sc1)
        = OAuthReply 401 (OAuthError ''invalid_client'' ''Invalid client credentials'')"
    using no_client_match(1) [OF ne cid s1 m1] by (simp add: invalid_client_def)
  show "tokenHandler sign (clients e) lifetime keyPair now (client_credentials_request id2 secret2 sc2)
        = OAuthReply 401 (OAuthError ''invalid_client'' ''Invalid client credentials'')"
    using no_client_match(1) [OF ne i2 s2 m2] by (simp add: invalid_client_def)
  show "tokenHandler_grants sign (clients e) us lifetime keyPair now
          (client_credentials_request (clientId c) secret1 sc1)
        = OAuthReply 401 (OAuthError ''invalid_client'' ''Invalid client credentials'')"
    using no_client_match(2) [OF ne cid s1 m1] by (simp add: invalid_client_def)
  show "tokenHandler_grants sign (clients e) us lifetime keyPair now
          (client_credentials_request id2 secret2 sc2)
        = OAuthReply 401 (OAuthError ''invalid_client'' ''Invalid client credentials'')"
    using no_client_match(2) [OF ne i2 s2 m2] by (simp add: invalid_client_def)
next
  assume h: "u \<in> set (users e) \<and> pw1 \<noteq> []
      \<and> (\<forall>u'\<in>set (users e). username u' = username u \<longrightarrow> password u' \<noteq> pw1)
      \<and> name2 \<noteq> [] \<and> (\<forall>u'\<in>set (users e). username u' \<noteq> name2) \<and> pw2 \<noteq> []"
  then have u: "u \<in> set (users e)" and p1: "pw1 \<noteq> []" and n2: "name2 \<noteq> []" and p2: "pw2 \<noteq> []"
    by simp_all
  have ne: "users e \<noteq> []" using u by auto
  have un: "username u \<noteq> []" using users_configured [OF u] by simp
  have m3: "\<forall>u'\<in>set (users e). \<not> (username u' = username u \<and> password u' = pw1)"
    using h by blast
  have m4: "\<forall>u'\<in>set (users e). \<not> (username u' = name2 \<and> password u' = pw2)"
    using h by blast
  show "tokenHandler_grants sign cs (users e) lifetime keyPair now (password_request (username u) pw1 sc1)
        = OAuthReply 401 (OAuthError ''invalid_grant'' ''Invalid username or password'')"
    using no_user_match [OF ne un p1 m3] by (simp add: invalid_user_def)
  show "tokenHandler_grants sign cs (users e) lifetime keyPair now (password_request name2 pw2 sc2)
        = OAuthReply 401 (OAuthError ''invalid_grant'' ''Invalid username or password'')"
    using no_user_match [OF ne n2 p2 m4] by (simp add: invalid_user_def)
qed

theorem uniform_invalid_credentials_witness:
  "tokenHandler demo_sign (clients demo_env) 3600 (Some demo_keys) 1700000000
       (client_credentials_request ''ops'' ''guess'' None)
     = OAuthReply 401 (OAuthError ''invalid_client'' ''Invalid client credentials'')
   \<and> tokenHandler demo_sign (clients demo_env) 3600 (Some demo_keys) 1700000000
       (client_credentials_request ''nobody'' ''guess'' None)
     = OAuthReply 401 (OAuthError ''invalid_client'' ''Invalid client credentials'')
   \<and> tokenHandler_grants demo_sign (clients demo_env) [] 3600 (Some demo_keys) 1700000000
       (client_credentials_request ''ops'' ''guess'' None)
     = tokenHandler_grants demo_sign (clients demo_env) [] 3600 (Some demo_keys) 1700000000
       (client_credentials_request ''nobody'' ''guess'' None)
   \<and> tokenHandler_grants demo_sign [] (users demo_env) 3600 (Some demo_keys) 1700000000
       (password_request ''ann'' ''guess'' None)
     = OAuthReply 401 (OAuthError ''invalid_grant'' ''Invalid username or password'')
   \<and> tokenHandler_grants demo_sign [] (users demo_env) 3600 (Some demo_keys) 1700000000
       (password_request ''nobody'' ''guess'' None)
     = OAuthReply 401 (OAuthError ''invalid_grant'' ''Invalid username or password'')"
  using uniform_invalid_credentials [where e = demo_env
      and c = "\<lparr>clientId = ''ops'', clientSecret = ''s3cret'', client_role = admin\<rparr>"
      and ?secret1.0 = "''guess''" and ?id2.0 = "''nobody''" and ?secret2.0 = "''guess''"
      and u = "\<lparr>username = ''ann'', password = ''pw'', user_config_role = readonly\<rparr>"
      and ?pw1.0 = "''guess''" and ?name2.0 = "''nobody''" and ?pw2.0 = "''guess''"
      and sign = demo_sign and lifetime = 3600 and keyPair = "Some demo_keys" and now = 1700000000
      and ?sc1.0 = None and ?sc2.0 = None and us = "[]" and cs = "[]"]
  by (simp add: demo_clients demo_users)

text \<open>
  C6. In the handler of routes/oauth.ts the check that a client is configured comes before
  the checks of grant_type: with no client configured, a request without grant_type and a
  request with an unsupported grant_type are both answered 500 \<open>server_error\<close>, not
  400 \<open>invalid_request\<close> and 400 \<open>invalid_grant\<close>.
\<close>

theorem clients_checked_before_grant_type:
  "clients Map.empty = []
   \<and> tokenHandler sign (clients Map.empty) lifetime keyPair now
       \<lparr>grant_type = None, client_id = None, client_secret = None, req_scope = None,
        req_username = None, req_password = None\<rparr>
     = OAuthReply 500 (OAuthError ''server_error'' ''OAuth server configuration error: No clients configured'')
   \<and> tokenHandler sign (clients Map.empty) lifetime keyPair now
       \<lparr>grant_type = Some ''authorization_code'', client_id = None, client_secret = None,
        req_scope = None, req_username = None, req_password = None\<rparr>
     = OAuthReply 500 (OAuthError ''server_error'' ''OAuth server configuration error: No clients configured'')"
  by (simp add: clients_def env_or_empty_def tokenHandler_def server_error_def)

text \<open>
  The handler with the password grant checks in the order of the specification: grant_type
  first, then the configured credentials of that grant.
\<close>

lemma grants_order:
  "falsy (grant_type req) \<Longrightarrow>
     tokenHandler_grants sign cs us lifetime keyPair now req =
       OAuthReply 400 (OAuthError ''invalid_request'' ''Missing required parameter: grant_type'')"
  "\<not> falsy (grant_type req) \<Longrightarrow> grant_type req \<noteq> Some ''client_credentials'' \<Longrightarrow>
   grant_type req \<noteq> Some ''password'' \<Longrightarrow>
     tokenHandler_grants sign cs us lifetime keyPair now req =
       OAuthReply 400 (OAuthError ''invalid_grant''
          ''Unsupported grant type. Supported types: client_credentials, password'')"
  "oauth_status (tokenHandler_grants sign cs us lifetime keyPair now req) = 500
     \<Longrightarrow> grant_type req = Some ''client_credentials'' \<or> grant_type req = Some ''password''"
  by (auto simp: tokenHandler_grants_def server_error_def issue_token_def getPrivateKey_def
      split: if_splits option.splits sum.splits)

section \<open>Properties of the token verifier\<close>

lemma bearer_parts:
  "(length (split CHR '' '' h) = 2 \<and> split CHR '' '' h ! 0 = ''Bearer'' \<and> split CHR '' '' h ! 1 = tok)
     \<longleftrightarrow> h = ''Bearer '' @ tok \<and> CHR '' '' \<notin> set tok"
proof -
  have "(length (split CHR '' '' h) = 2 \<and> split CHR '' '' h ! 0 = ''Bearer'' \<and> split CHR '' '' h ! 1 = tok)
      \<longleftrightarrow> split CHR '' '' h = [''Bearer'', tok]"
    by (cases "split CHR '' '' h" rule: list.exhaust; cases "tl (split CHR '' '' h)"; cases "tl (tl (split CHR '' '' h))") auto
  also have "\<dots> \<longleftrightarrow> h = ''Bearer'' @ CHR '' '' # tok \<and> CHR '' '' \<notin> set ''Bearer'' \<and> CHR '' '' \<notin> set tok"
    by (rule split_two)
  also have "\<dots> \<longleftrightarrow> h = ''Bearer '' @ tok \<and> CHR '' '' \<notin> set tok"
    by simp
  finally show ?thesis .
qed

lemma authenticateToken_bearer:
  assumes "tok \<noteq> []" "CHR '' '' \<notin> set tok"
  shows "authenticateToken verify keyPair now (Some (''Bearer '' @ tok)) =
           (case getPublicKey keyPair of
              Inl msg \<Rightarrow> verify_failed OtherError
            | Inr key \<Rightarrow>
                (case verify tok key [''RS256''] now of
                   Inl e \<Rightarrow> verify_failed e
                 | Inr decoded \<Rightarrow> Next decoded))"
proof -
  have "length (split CHR '' '' (''Bearer '' @ tok)) = 2 \<and> split CHR '' '' (''Bearer '' @ tok) ! 0 = ''Bearer''
      \<and> split CHR '' '' (''Bearer '' @ tok) ! 1 = tok"
    using assms(2) bearer_parts [of "''Bearer '' @ tok" tok] by blast
  then show ?thesis
    using assms(1) by (simp add: authenticateToken_def Let_def del: split.simps)
qed

lemma authenticateToken_malformed:
  assumes "\<forall>tok. h = ''Bearer '' @ tok \<longrightarrow> tok = [] \<or> CHR '' '' \<in> set tok"
  shows "\<exists>d. authenticateToken verify keyPair now (Some h) = unauthorized d"
proof (cases "h = [] \<or> length (split CHR '' '' h) \<noteq> 2 \<or> split CHR '' '' h ! 0 \<noteq> ''Bearer''")
  case True
  then show ?thesis by (auto simp: authenticateToken_def Let_def simp del: split.simps)
next
  case False
  then have "h = ''Bearer '' @ (split CHR '' '' h ! 1) \<and> CHR '' '' \<notin> set (split CHR '' '' h ! 1)"
    using bearer_parts [of h "split CHR '' '' h ! 1"] by blast
  with assms have "split CHR '' '' h ! 1 = []" by blast
  with False show ?thesis by (auto simp: authenticateToken_def Let_def simp del: split.simps)
qed

text \<open>
  C4. A request the middleware rejects for one of these reasons is answered 401 and
  \<^verbatim>\<open>next()\<close> is not called: no Authorization header; a header that is not \<open>Bearer\<close>, one
  space, and a non-empty token without a space; a token for which \<^verbatim>\<open>jwt.verify\<close> throws a
  \<^verbatim>\<open>JsonWebTokenError\<close> (invalid or malformed), a \<^verbatim>\<open>TokenExpiredError\<close> or a
  \<^verbatim>\<open>NotBeforeError\<close>.
\<close>

theorem rejections_are_401:
  assumes "authorization = None
     \<or> (\<exists>h. authorization = Some h \<and> (\<forall>tok. h = ''Bearer '' @ tok \<longrightarrow> tok = [] \<or> CHR '' '' \<in> set tok))
     \<or> (\<exists>tok key e. authorization = Some (''Bearer '' @ tok) \<and> tok \<noteq> [] \<and> CHR '' '' \<notin> set tok
          \<and> getPublicKey keyPair = Inr key \<and> verify tok key [''RS256''] now = Inl e
          \<and> e \<in> {JsonWebTokenError, TokenExpiredError, NotBeforeError})"
  shows "response_status (authenticateToken verify keyPair now authorization) = Some 401
     \<and> \<not> next_called (authenticateToken verify keyPair now authorization)"
  using assms
proof (elim disjE exE conjE)
  assume "authorization = None"
  then show ?thesis by (simp add: authenticateToken_def unauthorized_def)
next
  fix h assume "authorization = Some h" "\<forall>tok. h = ''Bearer '' @ tok \<longrightarrow> tok = [] \<or> CHR '' '' \<in> set tok"
  with authenticateToken_malformed [of h verify keyPair now] show ?thesis
    by (auto simp: unauthorized_def)
next
  fix tok key e
  assume h: "authorization = Some (''Bearer '' @ tok)" and t: "tok \<noteq> []" "CHR '' '' \<notin> set tok"
    and k: "getPublicKey keyPair = Inr key" and v: "verify tok key [''RS256''] now = Inl e"
    and e: "e \<in> {JsonWebTokenError, TokenExpiredError, NotBeforeError}"
  have "authenticateToken verify keyPair now authorization = verify_failed e"
    unfolding h authenticateToken_bearer [OF t] k using v by simp
  with e show ?thesis
    by (auto simp: verify_failed_def unauthorized_def)
qed

theorem rejections_are_401_witness:
  "response_status (authenticateToken (rejecting JsonWebTokenError) (Some demo_keys) 1700000000 None) = Some 401
   \<and> response_status (authenticateToken (rejecting JsonWebTokenError) (Some demo_keys) 1700000000
        (Some ''Basic b3BzOnMzY3JldA=='')) = Some 401
   \<and> response_status (authenticateToken (rejecting JsonWebTokenError) (Some demo_keys) 1700000000
        (Some ''Bearer garbage'')) = Some 401
   \<and> \<not> next_called (authenticateToken (rejecting TokenExpiredError) (Some demo_keys) 1700000000
        (Some ''Bearer garbage''))"
proof -
  have a: "response_status (authenticateToken (rejecting JsonWebTokenError) (Some demo_keys) 1700000000 None) = Some 401"
    using rejections_are_401 [of None "Some demo_keys" "rejecting JsonWebTokenError" 1700000000]
    by simp
  have b: "response_status (authenticateToken (rejecting JsonWebTokenError) (Some demo_keys) 1700000000
        (Some ''Basic b3BzOnMzY3JldA=='')) = Some 401"
    using rejections_are_401 [of "Some ''Basic b3BzOnMzY3JldA==''" "Some demo_keys"
        "rejecting JsonWebTokenError" 1700000000]
    by simp
  have c: "response_status (authenticateToken (rejecting e) (Some demo_keys) 1700000000
        (Some ''Bearer garbage'')) = Some 401
      \<and> \<not> next_called (authenticateToken (rejecting e) (Some demo_keys) 1700000000
        (Some ''Bearer garbage''))"
    if "e \<in> {JsonWebTokenError, TokenExpiredError, NotBeforeError}" for e
  proof -
    have "Some ''Bearer garbage'' = Some (''Bearer '' @ ''garbage'') \<and> ''garbage'' \<noteq> []
        \<and> CHR '' '' \<notin> set ''garbage'' \<and> getPublicKey (Some demo_keys) = Inr (PublicKey 1)
        \<and> rejecting e ''garbage'' (PublicKey 1) [''RS256''] 1700000000 = Inl e
        \<and> e \<in> {JsonWebTokenError, TokenExpiredError, NotBeforeError}"
      using that by (simp add: getPublicKey_def demo_keys_def rejecting_def)
    then show ?thesis
      using rejections_are_401 [of "Some ''Bearer garbage''" "Some demo_keys" "rejecting e" 1700000000]
      by blast
  qed
  from a b c [of JsonWebTokenError] c [of TokenExpiredError] show ?thesis by simp
qed

section \<open>Properties of the message normalisation\<close>

lemma turn_schema_turn_json: "turn_schema (turn_json t) = Some (turn_of t)"
  by (simp add: turn_schema_def turn_json_def turn_of_def js_get_def)

lemma messages_schema_turns:
  "messages_schema (map turn_json ts) = (if ts = [] then None else Some (map turn_of ts))"
  by (simp add: messages_schema_def turn_schema_turn_json)

lemma get_messages: "js_get [(''messages'', m)] ''messages'' = Some m"
  by (simp add: js_get_def)

text \<open>
  C8, as the code has it. A sequence of turns sent as an array is kept as it is, and
  validated to the same turns when it is not empty. A string whose JSON text is an array
  normalises to that array, so the two encodings give the same turns. A bare content
  string gives the single user message of that content when it is not itself the JSON
  text of an array or of an object.
\<close>

theorem encodings_agree:
  "chatBodySchema parse (body_with (JArr (map turn_json ts)))
     = (if ts = [] then None else Some (map turn_of ts))
   \<and> (parse s = Some (JArr xs) \<longrightarrow>
        normalizeMessages parse (Some (JStr s)) = normalizeMessages parse (Some (JArr xs))
        \<and> chatBodySchema parse (body_with (JStr s)) = chatBodySchema parse (body_with (JArr xs)))
   \<and> ((\<forall>ys. parse c \<noteq> Some (JArr ys)) \<and> (\<forall>members. parse c \<noteq> Some (JObj members)) \<longrightarrow>
        chatBodySchema parse (body_with (JStr c)) = Some [Turn ''user'' c]
        \<and> chatBodySchema parse (body_with (JArr [turn_json (''user'', c)])) = Some [Turn ''user'' c])"
proof (intro conjI impI)
  show "chatBodySchema parse (body_with (JArr (map turn_json ts)))
     = (if ts = [] then None else Some (map turn_of ts))"
    by (simp add: chatBodySchema_def body_with_def get_messages normalizeMessages_def
        messages_schema_turns)
next
  assume p: "parse s = Some (JArr xs)"
  then show "normalizeMessages parse (Some (JStr s)) = normalizeMessages parse (Some (JArr xs))"
    by (simp add: normalizeMessages_def)
  from p show "chatBodySchema parse (body_with (JStr s)) = chatBodySchema parse (body_with (JArr xs))"
    by (simp add: chatBodySchema_def body_with_def get_messages normalizeMessages_def)
next
  assume h: "(\<forall>ys. parse c \<noteq> Some (JArr ys)) \<and> (\<forall>members. parse c \<noteq> Some (JObj members))"
  have n: "normalizeMessages parse (Some (JStr c)) = [user_message c]"
    using h by (auto simp: normalizeMessages_def split: option.splits json.splits)
  have u: "user_message c = turn_json (''user'', c)"
    by (simp add: user_message_def turn_json_def)
  show "chatBodySchema parse (body_with (JStr c)) = Some [Turn ''user'' c]"
    using messages_schema_turns [of "[(''user'', c)]"]
    by (simp add: chatBodySchema_def body_with_def get_messages n u turn_of_def)
  show "chatBodySchema parse (body_with (JArr [turn_json (''user'', c)])) = Some [Turn ''user'' c]"
    using messages_schema_turns [of "[(''user'', c)]"]
    by (simp add: chatBodySchema_def body_with_def get_messages normalizeMessages_def turn_of_def)
qed

lemma parse_hi: "JSON_parse ''hi'' = None"
  by code_simp

lemma parse_hello_array:
  "JSON_parse ''[{\"role\":\"user\",\"content\":\"hi\"}]'' = Some (JArr (map turn_json [(''user'', ''hi'')]))"
  unfolding turn_json_def by code_simp

theorem encodings_agree_witness:
  "chatBodySchema JSON_parse (body_with (JStr ''[{\"role\":\"user\",\"content\":\"hi\"}]'')) = Some [Turn ''user'' ''hi'']
   \<and> chatBodySchema JSON_parse (body_with (JStr ''hi'')) = Some [Turn ''user'' ''hi'']
   \<and> chatBodySchema JSON_parse (body_with (JArr [turn_json (''user'', ''hi'')])) = Some [Turn ''user'' ''hi'']"
  using encodings_agree [of JSON_parse "[(''user'', ''hi'')]" "''[{\"role\":\"user\",\"content\":\"hi\"}]''"
      "map turn_json [(''user'', ''hi'')]" "''hi''"]
  by (simp add: parse_hi parse_hello_array turn_of_def)

text \<open>
  C8 as stated fails for a user message whose content is JSON text of an array: sent as a
  bare string, \<open>[]\<close> normalises to the empty array and is refused, while the array
  holding that one user message is accepted.
\<close>

lemma parse_brackets: "JSON_parse ''[]'' = Some (JArr [])"
  by code_simp

theorem bare_json_text_counterexample:
  "normalizeMessages JSON_parse (Some (JStr ''[]'')) = []
   \<and> normalizeMessages JSON_parse (Some (JArr [turn_json (''user'', ''[]'')])) = [turn_json (''user'', ''[]'')]
   \<and> chatBodySchema JSON_parse (body_with (JStr ''[]'')) = None
   \<and> chatBodySchema JSON_parse (body_with (JArr [turn_json (''user'', ''[]'')])) = Some [Turn ''user'' ''[]'']"
  using messages_schema_turns [of "[(''user'', ''[]'')]"]
  by (simp add: normalizeMessages_def parse_brackets chatBodySchema_def body_with_def get_messages
      messages_schema_def turn_of_def)

lemma messages_schema_None:
  assumes "xs = [] \<or> (\<exists>x\<in>set xs. \<not> (\<exists>members r c. x = JObj members
      \<and> js_get members ''role'' = Some (JStr r) \<and> js_get members ''content'' = Some (JStr c)))"
  shows "messages_schema xs = None"
proof -
  have "turn_schema x = None"
    if "\<not> (\<exists>members r c. x = JObj members
      \<and> js_get members ''role'' = Some (JStr r) \<and> js_get members ''content'' = Some (JStr c))" for x
    using that by (auto simp: turn_schema_def split: json.splits option.splits)
  with assms show ?thesis by (auto simp: messages_schema_def)
qed

lemma tools_invalid_body:
  assumes "chatBodySchema parse (req_body req) = None"
  shows "reply_status (fst (chatHandler_tools parse getSystemPrompt fetch req)) = 400
     \<and> fetches (snd (chatHandler_tools parse getSystemPrompt fetch req)) = []"
  using assms by (simp add: chatHandler_tools_def no_trace_def split: option.splits)

lemma chatHandler_invalid_body:
  assumes "chatBodySchema parse (req_body req) = None"
  shows "reply_status (fst (chatHandler parse getSystemPrompt allowedModels fetch req)) = 400
     \<and> fetches (snd (chatHandler parse getSystemPrompt allowedModels fetch req)) = []"
  using assms by (simp add: chatHandler_def no_trace_def split: option.splits)

text \<open>
  What the two handlers do refuse. When the messages field is an array, or a string
  holding the JSON text of an array or of an object, and what it normalises to is empty or
  has an element that is not an object with a string \<open>role\<close> and a string \<open>content\<close>,
  each handler answers 400 and calls the upstream service not once.
\<close>

lemma malformed_turns_rejected:
  assumes "req_body req = Some (JObj body)"
    and "js_get body ''messages'' = Some (JArr xs)
       \<or> (\<exists>s. js_get body ''messages'' = Some (JStr s) \<and> parse s = Some (JArr xs))
       \<or> (\<exists>s members. js_get body ''messages'' = Some (JStr s) \<and> parse s = Some (JObj members)
            \<and> xs = [JObj members])"
    and "xs = [] \<or> (\<exists>x\<in>set xs. \<not> (\<exists>members r c. x = JObj members
      \<and> js_get members ''role'' = Some (JStr r) \<and> js_get members ''content'' = Some (JStr c)))"
  shows "reply_status (fst (chatHandler parse getSystemPrompt allowedModels fetch req)) = 400
     \<and> fetches (snd (chatHandler parse getSystemPrompt allowedModels fetch req)) = []
     \<and> reply_status (fst (chatHandler_tools parse getSystemPrompt fetch req)) = 400
     \<and> fetches (snd (chatHandler_tools parse getSystemPrompt fetch req)) = []"
proof -
  from assms(2) have "normalizeMessages parse (js_get body ''messages'') = xs"
    by (auto simp: normalizeMessages_def)
  with messages_schema_None [OF assms(3)] assms(1)
  have "chatBodySchema parse (req_body req) = None"
    by (simp add: chatBodySchema_def)
  then show ?thesis
    using chatHandler_invalid_body [of parse req getSystemPrompt allowedModels fetch]
      tools_invalid_body [of parse req getSystemPrompt fetch]
    by simp
qed

lemma malformed_turns_rejected_example:
  "reply_status (fst (chatHandler JSON_parse demo_prompts [] (scripted 0)
      (chat_post (body_with (JArr [JObj [(''role'', JStr ''user'')]]))))) = 400
   \<and> fetches (snd (chatHandler_tools JSON_parse demo_prompts (scripted 0)
      (chat_post (body_with (JStr ''[]''))))) = []"
proof -
  have a: "reply_status (fst (chatHandler JSON_parse demo_prompts [] (scripted 0)
      (chat_post (body_with (JArr [JObj [(''role'', JStr ''user'')]]))))) = 400"
    using malformed_turns_rejected [of "chat_post (body_with (JArr [JObj [(''role'', JStr ''user'')]]))"
        "[(''messages'', JArr [JObj [(''role'', JStr ''user'')]])]" "[JObj [(''role'', JStr ''user'')]]"
        JSON_parse demo_prompts "[]" "scripted 0"]
    by (simp add: chat_post_def body_with_def js_get_def)
  have b: "fetches (snd (chatHandler_tools JSON_parse demo_prompts (scripted 0)
      (chat_post (body_with (JStr ''[]''))))) = []"
    using malformed_turns_rejected [of "chat_post (body_with (JStr ''[]''))"
        "[(''messages'', JStr ''[]'')]" "[]" JSON_parse demo_prompts "[]" "scripted 0"]
    by (simp add: chat_post_def body_with_def js_get_def parse_brackets)
  from a b show ?thesis by simp
qed

lemma toolLoop_scripted_0:
  "toolLoop (scripted 0) user 0 request no_trace =
     (Reply 200 (Data says_done), \<lparr>fetches = [request], executed = [], rounds = 0\<rparr>)"
  by (subst toolLoop.simps)
     (simp add: MAX_TOOL_ITERATIONS_def scripted_def ok_def says_done_def tool_request_def
       assistantMessage_def no_trace_def)

text \<open>
  C9. The code does not refuse every malformed messages field. \<^verbatim>\<open>normalizeMessages\<close> ends
  with \<^verbatim>\<open>return [{ role: 'user', content: String(messages) }]\<close>, so a messages field that
  is neither an array nor a string passes the schema: the number 42, an object and a
  missing field are answered 200 and sent upstream as the user messages \<open>42\<close>,
  \<open>[object Object]\<close> and \<open>undefined\<close>, the caller's content altered or made up. The
  comment on the schema (messages can be string, array, or JSON string) and the message of
  the 400 answer (messages must be a string or array of {role, content} objects) say
  otherwise, and a string holding the JSON text of the same object is read as one turn.
\<close>

theorem coerced_messages_forwarded:
  "chatHandler JSON_parse demo_prompts [] (scripted 0) (chat_post (body_with (JNum ''42'')))
     = (Reply 200 (Data says_done),
        \<lparr>fetches = [\<lparr>messages = [Turn ''system'' (demo_prompts ''general'' ''insecure''), Turn ''user'' ''42''],
                     model = Some ''gpt-5-mini''\<rparr>],
         executed = [], rounds = 0\<rparr>)
   \<and> chatHandler_tools JSON_parse demo_prompts (scripted 0) (chat_post (body_with (JNum ''42'')))
     = (Reply 200 (Data says_done),
        \<lparr>fetches = [\<lparr>messages = [Turn ''system'' (demo_prompts ''general'' ''insecure''), Turn ''user'' ''42''],
                     model = None\<rparr>],
         executed = [], rounds = 0\<rparr>)
   \<and> chatHandler_tools JSON_parse demo_prompts (scripted 0)
       (chat_post (body_with (JObj [(''role'', JStr ''user''), (''content'', JStr ''Hello!'')])))
     = (Reply 200 (Data says_done),
        \<lparr>fetches = [\<lparr>messages = [Turn ''system'' (demo_prompts ''general'' ''insecure''),
                                  Turn ''user'' ''[object Object]''],
                     model = None\<rparr>],
         executed = [], rounds = 0\<rparr>)
   \<and> chatHandler_tools JSON_parse demo_prompts (scripted 0) (chat_post (Some (JObj [])))
     = (Reply 200 (Data says_done),
        \<lparr>fetches = [\<lparr>messages = [Turn ''system'' (demo_prompts ''general'' ''insecure''),
                                  Turn ''user'' ''undefined''],
                     model = None\<rparr>],
         executed = [], rounds = 0\<rparr>)"
  by (simp add: chatHandler_def chatHandler_tools_def chat_post_def body_with_def levelPathSchema_def
      chatQuerySchema_def chatQuerySchema_tools_def
      chatBodySchema_def js_get_def normalizeMessages_def user_message_def messages_schema_def
      turn_schema_def FISH_TO_LEVEL_def or_else_def toolLoop_scripted_0 [unfolded no_trace_def]
      no_trace_def scripted_def ok_def)

section \<open>Properties of signing and verification\<close>

lemma digit_chars: "\<forall>d \<in> set [0..<10]. is_digit (char_of (48 + d)) \<and> digit_value (char_of (48 + d)) = d
    \<and> char_of (48 + d) \<noteq> CHR ''.'' \<and> char_of (48 + d) \<noteq> CHR '' ''"
  by code_simp

lemma digit_char:
  assumes "d < 10"
  shows "is_digit (char_of (48 + d))" "digit_value (char_of (48 + d)) = d"
    "char_of (48 + d) \<noteq> CHR ''.''" "char_of (48 + d) \<noteq> CHR '' ''"
  using digit_chars assms by simp_all

lemma digits_value_snoc: "digits_value (ds @ [c]) = 10 * digits_value ds + digit_value c"
  by (simp add: digits_value_def)

lemma show_nat_digits:
  "show_nat n \<noteq> [] \<and> (\<forall>c\<in>set (show_nat n). is_digit c \<and> c \<noteq> CHR ''.'' \<and> c \<noteq> CHR '' '')
   \<and> digits_value (show_nat n) = n"
proof (induction n rule: show_nat.induct)
  case (1 n)
  show ?case
  proof (cases "n < 10")
    case True
    then show ?thesis
      by (subst (1 2 3) show_nat.simps) (simp add: digit_char digits_value_def)
  next
    case False
    have m: "n mod 10 < 10" by simp
    from False 1 have ih: "show_nat (n div 10) \<noteq> []"
      "\<forall>c\<in>set (show_nat (n div 10)). is_digit c \<and> c \<noteq> CHR ''.'' \<and> c \<noteq> CHR '' ''"
      "digits_value (show_nat (n div 10)) = n div 10"
      by simp_all
    have s: "show_nat n = show_nat (n div 10) @ [char_of (48 + n mod 10)]"
      using False by (subst show_nat.simps) simp
    show ?thesis
      unfolding s using ih digit_char [OF m] by (simp add: digits_value_snoc)
  qed
qed

lemma read_show_nat: "read_nat (show_nat n) = Some n"
  using show_nat_digits [of n] by (simp add: read_nat_def)


lemma hex_round: "\<forall>n \<in> set [0..<16]. hex_value (hex_char n) = Some n"
  by code_simp

lemma hex_value_hex_char: "n < 16 \<Longrightarrow> hex_value (hex_char n) = Some n"
  using hex_round by simp

lemma decode_encode_text: "decode_text (encode_text s) = Some s"
proof (induction s)
  case Nil
  show ?case by (simp add: encode_text_def)
next
  case (Cons c s)
  have n: "(of_char c :: nat) < 256" by simp
  then have h: "(of_char c :: nat) div 16 < 16" by presburger
  have "16 * ((of_char c :: nat) div 16) + of_char c mod 16 = of_char c" by simp
  with Cons h show ?case
    by (simp add: encode_text_def hex_value_hex_char)
qed

lemma hex_chars: "\<forall>n \<in> set [0..<16]. hex_char n \<noteq> CHR ''.'' \<and> hex_char n \<noteq> CHR '' ''"
  by code_simp

lemma encode_text_chars: "c \<in> set (encode_text s) \<Longrightarrow> c \<noteq> CHR ''.'' \<and> c \<noteq> CHR '' ''"
proof -
  have h: "hex_char n \<noteq> CHR ''.'' \<and> hex_char n \<noteq> CHR '' ''" if "n < 16" for n
    using hex_chars that by simp
  have a: "(of_char x :: nat) div 16 < 16" for x :: char
  proof -
    have "(of_char x :: nat) < 256" by simp
    then show ?thesis by presburger
  qed
  have b: "(of_char x :: nat) mod 16 < 16" for x :: char by simp
  assume "c \<in> set (encode_text s)"
  then obtain x where "c = hex_char (of_char x div 16) \<or> c = hex_char (of_char x mod 16)"
    by (auto simp: encode_text_def)
  with h [OF a [of x]] h [OF b [of x]] show ?thesis by auto
qed

lemma decode_encode_opt_text: "decode_opt_text (encode_opt_text v) = Some v"
  by (cases v) (simp_all add: decode_opt_text_def encode_opt_text_def decode_encode_text)

lemma decode_encode_opt_int: "decode_opt_int (encode_opt_int v) = Some v"
  by (cases v) (simp_all add: decode_opt_int_def encode_opt_int_def read_show_nat)

lemma encode_opt_text_chars:
  assumes "c \<in> set (encode_opt_text v)"
  shows "c \<noteq> CHR ''.'' \<and> c \<noteq> CHR '' ''"
proof (cases v)
  case None
  with assms show ?thesis by (simp add: encode_opt_text_def)
next
  case (Some s)
  with assms have "c = CHR ''t'' \<or> c \<in> set (encode_text s)"
    by (simp add: encode_opt_text_def)
  then show ?thesis using encode_text_chars [of c s] by auto
qed

lemma show_nat_chars: "c \<in> set (show_nat n) \<Longrightarrow> c \<noteq> CHR ''.'' \<and> c \<noteq> CHR '' ''"
  using show_nat_digits [of n] by simp

lemma encode_opt_int_chars:
  assumes "c \<in> set (encode_opt_int v)"
  shows "c \<noteq> CHR ''.'' \<and> c \<noteq> CHR '' ''"
proof (cases v)
  case None
  with assms show ?thesis by (simp add: encode_opt_int_def)
next
  case (Some i)
  with assms have "c = CHR ''m'' \<or> c = CHR ''p'' \<or> (\<exists>n. c \<in> set (show_nat n))"
    by (auto simp: encode_opt_int_def split: if_splits)
  then show ?thesis
    using show_nat_chars [of c] by auto
qed

lemma split_join_dots:
  assumes "segs \<noteq> []" "\<forall>s\<in>set segs. CHR ''.'' \<notin> set s"
  shows "split CHR ''.'' (join_dots segs) = segs"
  using assms
proof (induction segs rule: join_dots.induct)
  case 1
  then show ?case by simp
next
  case (2 s)
  then show ?case by (simp add: split_no_sep del: split.simps)
next
  case (3 s t ts)
  then show ?case by (simp add: split_append del: split.simps)
qed

lemma join_dots_chars: "c \<in> set (join_dots segs) \<Longrightarrow> c = CHR ''.'' \<or> (\<exists>s\<in>set segs. c \<in> set s)"
  by (induction segs rule: join_dots.induct) auto

lemma token_text_segments: "token_text j = join_dots (segments j)"
  by (simp add: token_text_def)

lemma segments_chars:
  assumes "s \<in> set (segments j)" "c \<in> set s"
  shows "c \<noteq> CHR ''.'' \<and> c \<noteq> CHR '' ''"
proof -
  from assms(1) have "(\<exists>t. s = encode_text t) \<or> (\<exists>n. s = show_nat n)
      \<or> (\<exists>v. s = encode_opt_text v) \<or> (\<exists>v. s = encode_opt_int v)"
    unfolding segments_def by (simp only: set_simps insert_iff empty_iff) blast
  with assms(2) show ?thesis
    using encode_text_chars [of c] show_nat_chars [of c] encode_opt_text_chars [of c]
      encode_opt_int_chars [of c]
    by blast
qed

lemma split_token_text: "split CHR ''.'' (token_text j) = segments j"
proof -
  have "segments j \<noteq> []" by (simp add: segments_def)
  moreover have "\<forall>s\<in>set (segments j). CHR ''.'' \<notin> set s"
    using segments_chars [of _ j "CHR ''.''"] by blast
  ultimately show ?thesis
    unfolding token_text_segments by (rule split_join_dots)
qed

lemma decode_token_text: "decode_token (token_text j) = Some j"
  unfolding decode_token_def split_token_text
  by (simp add: segments_def decode_encode_text read_show_nat decode_encode_opt_text
      decode_encode_opt_int)

lemma token_text_no_space: "CHR '' '' \<notin> set (token_text j)"
proof
  assume "CHR '' '' \<in> set (token_text j)"
  then have "\<exists>s\<in>set (segments j). CHR '' '' \<in> set s"
    unfolding token_text_segments using join_dots_chars [of "CHR '' ''" "segments j"] by auto
  then show False using segments_chars [of _ j "CHR '' ''"] by blast
qed

lemma token_text_nonempty: "token_text j \<noteq> []"
proof -
  have "split CHR ''.'' (token_text j) = segments j" by (rule split_token_text)
  moreover have "split CHR ''.'' [] \<noteq> segments j" by (simp add: segments_def)
  ultimately show ?thesis by auto
qed

lemma jwt_verify_signed:
  assumes "jwt_sign p (PrivateKey n) ''RS256'' = Inr token"
  shows "jwt_verify token (PublicKey n) [''RS256''] t =
           (if (\<exists>b. nbf p = Some b \<and> t < b) then Inl NotBeforeError
            else if (\<exists>e. exp p = Some e \<and> e \<le> t) then Inl TokenExpiredError
            else Inr p)"
proof -
  from assms have tok: "token = token_text \<lparr>jws_alg = ''RS256'', jws_key = n, jws_claims = p\<rparr>"
    by (simp add: jwt_sign_def)
  show ?thesis
    unfolding tok jwt_verify_def decode_token_text
    by (cases "nbf p"; cases "exp p") (simp_all add: key_modulus_def)
qed

lemma jwt_sign_token:
  assumes "jwt_sign p key a = Inr token"
  shows "token \<noteq> []" "CHR '' '' \<notin> set token"
  using assms token_text_nonempty token_text_no_space
  by (auto simp: jwt_sign_def split: KeyObject.splits if_splits)

text \<open>
  C1. A claim set minted by the token endpoint, signed with the private key of the
  generated pair under RS256, verifies at any time before its expiry with the public key
  read from the JWKS document, and verification returns the same claims.
\<close>

theorem sign_verify_round_trip:
  assumes "keyPair = Some (generateRSAKeyPair sha256_hex n)"
    and "claims = token_payload lifetime now subject r sc"
    and "t < now + lifetime"
  shows "\<exists>key k token.
           getPrivateKey keyPair = Inr key
           \<and> getPublicKeyJWK keyPair = Inr [k]
           \<and> jwt_sign claims key ''RS256'' = Inr token
           \<and> jwt_verify token (key_of_jwk k) [''RS256''] t = Inr claims"
proof -
  let ?token = "token_text \<lparr>jws_alg = ''RS256'', jws_key = n, jws_claims = claims\<rparr>"
  have s: "jwt_sign claims (PrivateKey n) ''RS256'' = Inr ?token"
    by (simp add: jwt_sign_def)
  have w: "\<not> (\<exists>b. nbf claims = Some b \<and> t < b)" "\<not> (\<exists>e. exp claims = Some e \<and> e \<le> t)"
    using assms(3) by (simp_all add: assms(2) token_payload_def)
  have v: "jwt_verify ?token (PublicKey n) [''RS256''] t = Inr claims"
    using jwt_verify_signed [OF s, of t] w by simp
  show ?thesis
    using s v
    by (simp add: assms(1) generateRSAKeyPair_def getPrivateKey_def getPublicKeyJWK_def
        key_of_jwk_def key_modulus_def)
qed

theorem sign_verify_round_trip_witness:
  "\<exists>key k token.
     getPrivateKey (Some (generateRSAKeyPair demo_digest 77)) = Inr key
     \<and> getPublicKeyJWK (Some (generateRSAKeyPair demo_digest 77)) = Inr [k]
     \<and> jwt_sign (token_payload 3600 1000 ''ops'' admin (Some ''chat'')) key ''RS256'' = Inr token
     \<and> jwt_verify token (key_of_jwk k) [''RS256''] 4599 = Inr (token_payload 3600 1000 ''ops'' admin (Some ''chat''))"
  using sign_verify_round_trip [of "Some (generateRSAKeyPair demo_digest 77)" demo_digest 77
      "token_payload 3600 1000 ''ops'' admin (Some ''chat'')" 3600 1000 "''ops''" admin "Some ''chat''" 4599]
  by simp

lemma issued_token:
  assumes "tokenHandler sign cs lifetime (Some kp) now req = OAuthReply 200 (TokenResponse token a b c)
     \<or> tokenHandler_grants sign cs us lifetime (Some kp) now req = OAuthReply 200 (TokenResponse token a b c)"
  shows "\<exists>subject r. sign (token_payload lifetime now subject r (req_scope req)) (privateKey kp) ''RS256'' = Inr token"
  using assms
  by (auto simp: tokenHandler_def tokenHandler_grants_def issue_token_def getPrivateKey_def server_error_def
      split: if_splits option.splits sum.splits)

text \<open>
  C5. A token the endpoint issues at \<open>now\<close> with lifetime \<open>T\<close> seconds is accepted by the
  middleware at every time before \<open>now + T\<close>, with \<open>iat = now\<close> and \<open>exp = now + T\<close> in the
  attached claims, and refused from \<open>now + T\<close> on with 401 and the description
  "Token has expired". At the boundary \<open>now + T\<close> itself the token is refused. That answer
  is not the one an invalid token gets: the same token presented to a process with another
  key pair, at any time, and a bearer token that is not the text of a token are refused
  with 401 and the description "Invalid or malformed token".
\<close>

theorem token_lifetime:
  assumes "tokenHandler jwt_sign cs lifetime (Some (generateRSAKeyPair sha256_hex n)) now req
             = OAuthReply 200 (TokenResponse token ty secs sc)
     \<or> tokenHandler_grants jwt_sign cs us lifetime (Some (generateRSAKeyPair sha256_hex n)) now req
             = OAuthReply 200 (TokenResponse token ty secs sc)"
  shows "(t < now + lifetime \<longrightarrow>
           (\<exists>claims. authenticateToken jwt_verify (Some (generateRSAKeyPair sha256_hex n)) t
                        (Some (''Bearer '' @ token)) = Next claims
                      \<and> iat claims = Some now \<and> exp claims = Some (now + lifetime)))
       \<and> (now + lifetime \<le> t \<longrightarrow>
           authenticateToken jwt_verify (Some (generateRSAKeyPair sha256_hex n)) t
             (Some (''Bearer '' @ token)) = Rejected 401 ''unauthorized'' ''Token has expired'')
       \<and> (m \<noteq> n \<longrightarrow>
           authenticateToken jwt_verify (Some (generateRSAKeyPair sha256_hex m)) t
             (Some (''Bearer '' @ token)) = Rejected 401 ''unauthorized'' ''Invalid or malformed token'')
       \<and> (decode_token other = None \<and> other \<noteq> [] \<and> CHR '' '' \<notin> set other \<longrightarrow>
           authenticateToken jwt_verify (Some (generateRSAKeyPair sha256_hex n)) t
             (Some (''Bearer '' @ other)) = Rejected 401 ''unauthorized'' ''Invalid or malformed token'')
       \<and> (now + lifetime \<le> t \<and> m \<noteq> n \<longrightarrow>
           authenticateToken jwt_verify (Some (generateRSAKeyPair sha256_hex n)) t (Some (''Bearer '' @ token))
             \<noteq> authenticateToken jwt_verify (Some (generateRSAKeyPair sha256_hex m)) t
                 (Some (''Bearer '' @ token)))"
proof -
  let ?kp = "generateRSAKeyPair sha256_hex n"
  from issued_token [OF assms] obtain subject r where
    s: "jwt_sign (token_payload lifetime now subject r (req_scope req)) (privateKey ?kp) ''RS256'' = Inr token"
    by blast
  let ?p = "token_payload lifetime now subject r (req_scope req)"
  have s': "jwt_sign ?p (PrivateKey n) ''RS256'' = Inr token"
    using s by (simp add: generateRSAKeyPair_def)
  have tok: "token = token_text \<lparr>jws_alg = ''RS256'', jws_key = n, jws_claims = ?p\<rparr>"
    using s' by (simp add: jwt_sign_def)
  have a: "authenticateToken jwt_verify (Some (generateRSAKeyPair sha256_hex k)) t (Some (''Bearer '' @ token)) =
        (case jwt_verify token (PublicKey k) [''RS256''] t of Inl e \<Rightarrow> verify_failed e | Inr decoded \<Rightarrow> Next decoded)"
    for k
    unfolding authenticateToken_bearer [OF jwt_sign_token [OF s]]
    by (simp add: getPublicKey_def generateRSAKeyPair_def)
  have v: "jwt_verify token (PublicKey n) [''RS256''] t =
        (if now + lifetime \<le> t then Inl TokenExpiredError else Inr ?p)"
    unfolding jwt_verify_signed [OF s'] by (simp add: token_payload_def)
  have w: "jwt_verify token (PublicKey m) [''RS256''] t = Inl JsonWebTokenError" if "m \<noteq> n"
    unfolding tok jwt_verify_def decode_token_text using that by (simp add: key_modulus_def)
  have accepted: "t < now + lifetime \<longrightarrow>
           (\<exists>claims. authenticateToken jwt_verify (Some ?kp) t (Some (''Bearer '' @ token)) = Next claims
                      \<and> iat claims = Some now \<and> exp claims = Some (now + lifetime))"
    unfolding a v by (simp add: token_payload_def)
  have expired: "now + lifetime \<le> t \<longrightarrow>
           authenticateToken jwt_verify (Some ?kp) t (Some (''Bearer '' @ token))
             = Rejected 401 ''unauthorized'' ''Token has expired''"
    unfolding a v by (simp add: verify_failed_def unauthorized_def)
  have other_key: "m \<noteq> n \<longrightarrow>
           authenticateToken jwt_verify (Some (generateRSAKeyPair sha256_hex m)) t
             (Some (''Bearer '' @ token)) = Rejected 401 ''unauthorized'' ''Invalid or malformed token''"
    unfolding a using w by (simp add: verify_failed_def unauthorized_def)
  have no_token: "decode_token other = None \<and> other \<noteq> [] \<and> CHR '' '' \<notin> set other \<longrightarrow>
           authenticateToken jwt_verify (Some ?kp) t (Some (''Bearer '' @ other))
             = Rejected 401 ''unauthorized'' ''Invalid or malformed token''"
  proof
    assume h: "decode_token other = None \<and> other \<noteq> [] \<and> CHR '' '' \<notin> set other"
    then have ne: "other \<noteq> []" and sp: "CHR '' '' \<notin> set other" and d: "decode_token other = None"
      by simp_all
    show "authenticateToken jwt_verify (Some ?kp) t (Some (''Bearer '' @ other))
             = Rejected 401 ''unauthorized'' ''Invalid or malformed token''"
      unfolding authenticateToken_bearer [OF ne sp]
      by (simp add: getPublicKey_def generateRSAKeyPair_def jwt_verify_def d verify_failed_def
          unauthorized_def)
  qed
  have differ: "now + lifetime \<le> t \<and> m \<noteq> n \<longrightarrow>
           authenticateToken jwt_verify (Some ?kp) t (Some (''Bearer '' @ token))
             \<noteq> authenticateToken jwt_verify (Some (generateRSAKeyPair sha256_hex m)) t
                 (Some (''Bearer '' @ token))"
    using expired other_key by simp
  from accepted expired other_key no_token differ show ?thesis by (intro conjI)
qed

lemma demo_issue:
  "tokenHandler jwt_sign (clients demo_env) 3600 (Some (generateRSAKeyPair demo_digest 77)) 1000
     (client_credentials_request ''ops'' ''s3cret'' None)
   = OAuthReply 200 (TokenResponse
       (token_text \<lparr>jws_alg = ''RS256'', jws_key = 77,
                    jws_claims = token_payload 3600 1000 ''ops'' admin None\<rparr>)
       ''Bearer'' 3600 None)"
  by (simp add: tokenHandler_def demo_clients client_credentials_request_def falsy_def issue_token_def
      getPrivateKey_def generateRSAKeyPair_def jwt_sign_def)

theorem token_lifetime_witness:
  "authenticateToken jwt_verify (Some (generateRSAKeyPair demo_digest 77)) 4599
     (Some (''Bearer '' @ access_token (oauth_body
        (tokenHandler jwt_sign (clients demo_env) 3600 (Some (generateRSAKeyPair demo_digest 77)) 1000
           (client_credentials_request ''ops'' ''s3cret'' None)))))
     = Next (token_payload 3600 1000 ''ops'' admin None)
   \<and> authenticateToken jwt_verify (Some (generateRSAKeyPair demo_digest 77)) 4600
     (Some (''Bearer '' @ access_token (oauth_body
        (tokenHandler jwt_sign (clients demo_env) 3600 (Some (generateRSAKeyPair demo_digest 77)) 1000
           (client_credentials_request ''ops'' ''s3cret'' None)))))
     = Rejected 401 ''unauthorized'' ''Token has expired''
   \<and> authenticateToken jwt_verify (Some (generateRSAKeyPair demo_digest 78)) 4600
     (Some (''Bearer '' @ access_token (oauth_body
        (tokenHandler jwt_sign (clients demo_env) 3600 (Some (generateRSAKeyPair demo_digest 77)) 1000
           (client_credentials_request ''ops'' ''s3cret'' None)))))
     = Rejected 401 ''unauthorized'' ''Invalid or malformed token''
   \<and> authenticateToken jwt_verify (Some (generateRSAKeyPair demo_digest 77)) 4600
     (Some ''Bearer not.a.token'')
     = Rejected 401 ''unauthorized'' ''Invalid or malformed token''"
proof -
  let ?token = "token_text \<lparr>jws_alg = ''RS256'', jws_key = 77,
                    jws_claims = token_payload 3600 1000 ''ops'' admin None\<rparr>"
  have v: "jwt_verify ?token (PublicKey 77) [''RS256''] 4599 = Inr (token_payload 3600 1000 ''ops'' admin None)"
    by (simp add: jwt_verify_def decode_token_text key_modulus_def token_payload_def)
  have g: "decode_token ''not.a.token'' = None"
    by (simp add: decode_token_def)
  note early = token_lifetime [where cs = "clients demo_env" and lifetime = 3600 and ?sha256_hex = demo_digest
      and n = 77 and now = 1000 and req = "client_credentials_request ''ops'' ''s3cret'' None"
      and token = ?token and ty = "''Bearer''" and secs = 3600 and sc = None and us = "users demo_env"
      and t = 4599 and m = 78 and other = "''not.a.token''"]
  note late = token_lifetime [where cs = "clients demo_env" and lifetime = 3600 and ?sha256_hex = demo_digest
      and n = 77 and now = 1000 and req = "client_credentials_request ''ops'' ''s3cret'' None"
      and token = ?token and ty = "''Bearer''" and secs = 3600 and sc = None and us = "users demo_env"
      and t = 4600 and m = 78 and other = "''not.a.token''"]
  have a: "authenticateToken jwt_verify (Some (generateRSAKeyPair demo_digest 77)) 4599
      (Some (''Bearer '' @ ?token)) = Next (token_payload 3600 1000 ''ops'' admin None)"
    using early demo_issue
    unfolding authenticateToken_bearer [OF token_text_nonempty token_text_no_space]
    by (simp add: getPublicKey_def generateRSAKeyPair_def v)
  have b: "authenticateToken jwt_verify (Some (generateRSAKeyPair demo_digest 77)) 4600
      (Some (''Bearer '' @ ?token)) = Rejected 401 ''unauthorized'' ''Token has expired''"
    using late demo_issue by simp
  have c: "authenticateToken jwt_verify (Some (generateRSAKeyPair demo_digest 78)) 4600
      (Some (''Bearer '' @ ?token)) = Rejected 401 ''unauthorized'' ''Invalid or malformed token''"
    using late demo_issue by simp
  have d: "authenticateToken jwt_verify (Some (generateRSAKeyPair demo_digest 77)) 4600
      (Some (''Bearer '' @ ''not.a.token'')) = Rejected 401 ''unauthorized'' ''Invalid or malformed token''"
    using late demo_issue g by simp
  have e: "''Bearer '' @ ''not.a.token'' = ''Bearer not.a.token''" by simp
  from a b c d show ?thesis by (simp only: demo_issue oauth_reply.sel oauth_body.sel e)
qed

text \<open>
  C10. For a token signed under RS256 with the private key of the process, whatever its
  claims, the decision of the middleware is a function of \<open>nbf\<close>, \<open>exp\<close> and the time
  alone: refused as not yet valid before \<open>nbf\<close>, refused as expired from \<open>exp\<close> on, and
  otherwise accepted with exactly its claims attached; \<open>iss\<close>, \<open>aud\<close>, \<open>sub\<close> and \<open>role\<close>
  play no part.
\<close>

theorem verifier_checks_signature_and_window_only:
  assumes "jwt_sign claims (privateKey (generateRSAKeyPair sha256_hex n)) ''RS256'' = Inr token"
  shows "authenticateToken jwt_verify (Some (generateRSAKeyPair sha256_hex n)) t (Some (''Bearer '' @ token)) =
           (if (\<exists>b. nbf claims = Some b \<and> t < b) then Rejected 401 ''unauthorized'' ''Token not yet valid''
            else if (\<exists>e. exp claims = Some e \<and> e \<le> t) then Rejected 401 ''unauthorized'' ''Token has expired''
            else Next claims)"
proof -
  let ?kp = "generateRSAKeyPair sha256_hex n"
  have s': "jwt_sign claims (PrivateKey n) ''RS256'' = Inr token"
    using assms by (simp add: generateRSAKeyPair_def)
  have a: "authenticateToken jwt_verify (Some ?kp) t (Some (''Bearer '' @ token)) =
        (case jwt_verify token (PublicKey n) [''RS256''] t of Inl e \<Rightarrow> verify_failed e | Inr decoded \<Rightarrow> Next decoded)"
    unfolding authenticateToken_bearer [OF jwt_sign_token [OF assms]]
    by (simp add: getPublicKey_def generateRSAKeyPair_def)
  show ?thesis
    unfolding a jwt_verify_signed [OF s'] by (simp add: verify_failed_def unauthorized_def)
qed

theorem verifier_checks_signature_and_window_only_witness:
  "authenticateToken jwt_verify (Some (generateRSAKeyPair demo_digest 77)) 1999
     (Some (''Bearer '' @ token_text \<lparr>jws_alg = ''RS256'', jws_key = 77, jws_claims = foreign_claims\<rparr>))
   = Next foreign_claims"
  using verifier_checks_signature_and_window_only [of foreign_claims demo_digest 77
      "token_text \<lparr>jws_alg = ''RS256'', jws_key = 77, jws_claims = foreign_claims\<rparr>" 1999]
  by (simp add: jwt_sign_def generateRSAKeyPair_def foreign_claims_def)

end
